theory Spec2Isabelle
  imports Main "HOL-Library.Word"
begin

section \<open>JavaScript strings\<close>

text \<open>
  A JavaScript string is a sequence of UTF-16 code units. The command prefixes and the
  user-facing messages of the plugin contain CJK characters, so strings are modelled as
  lists of 16-bit words; \<open>startsWith\<close>, \<open>slice\<close>, \<open>length\<close> and \<open>===\<close> all work on code
  units, as they do in the source.
\<close>

type_synonym jsstring = "16 word list"

definition ascii :: "string \<Rightarrow> jsstring" where
  "ascii s = map of_char s"

text \<open>\<open>if (s)\<close> on a value of type \<open>string | undefined\<close>: undefined and the empty string are falsy.\<close>

fun truthy :: "jsstring option \<Rightarrow> bool" where
  "truthy None = False"
| "truthy (Some s) = (s \<noteq> [])"

text \<open>\<open>String.prototype.startsWith\<close>: code unit by code unit, from position 0.\<close>

fun startsWith :: "jsstring \<Rightarrow> jsstring \<Rightarrow> bool" where
  "startsWith s [] = True"
| "startsWith [] (p # ps) = False"
| "startsWith (c # cs) (p # ps) = (c = p \<and> startsWith cs ps)"

text \<open>
  \<open>String.prototype.trim\<close> removes the code units of ECMAScript's WhiteSpace and
  LineTerminator productions from both ends: TAB, LF, VT, FF, CR, SP, NBSP, U+1680,
  U+2000 to U+200A, U+2028, U+2029, U+202F, U+205F, U+3000 and U+FEFF.
\<close>

definition isWhiteSpace :: "16 word \<Rightarrow> bool" where
  "isWhiteSpace c =
     (c \<in> {0x09, 0x0A, 0x0B, 0x0C, 0x0D, 0x20, 0xA0, 0x1680, 0x2028, 0x2029, 0x202F, 0x205F,
           0x3000, 0xFEFF} \<or> (0x2000 \<le> c \<and> c \<le> 0x200A))"

definition trim :: "jsstring \<Rightarrow> jsstring" where
  "trim s = rev (dropWhile isWhiteSpace (rev (dropWhile isWhiteSpace s)))"

text \<open>
  A regular expression with the \<open>i\<close> flag and without the \<open>u\<close> flag compares the
  canonical forms of the code units. For an ASCII pattern character this is ASCII case
  folding: the canonical form of a code unit of 128 or more is never an ASCII character.
\<close>

definition asciiUpper :: "16 word \<Rightarrow> 16 word" where
  "asciiUpper c = (if 0x61 \<le> c \<and> c \<le> 0x7A then c - 0x20 else c)"

fun ciStartsWith :: "jsstring \<Rightarrow> jsstring \<Rightarrow> bool" where
  "ciStartsWith s [] = True"
| "ciStartsWith [] (p # ps) = False"
| "ciStartsWith (c # cs) (p # ps) = (asciiUpper c = asciiUpper p \<and> ciStartsWith cs ps)"

section \<open>Event deduplication cache (monitor.ts)\<close>

text \<open>
  \<open>processedEventIds\<close> is a \<open>Map<string, number>\<close>: an association list in insertion order.
  \<open>Map.set\<close> overwrites the value of a key that is present and appends a new key otherwise.
  Every \<open>Date.now()\<close> is an input: \<open>isEventProcessed\<close> reads the clock twice on the path that
  records an identifier (once for the timestamp it stores, once inside the sweep), so it takes
  the pair of readings.
\<close>

type_synonym dedup_cache = "(jsstring \<times> int) list"

definition EVENT_DEDUP_TTL :: int where
  "EVENT_DEDUP_TTL = 60000"

definition map_has :: "('k \<times> 'v) list \<Rightarrow> 'k \<Rightarrow> bool" where
  "map_has m k = (k \<in> set (map fst m))"

definition map_set :: "('k \<times> 'v) list \<Rightarrow> 'k \<Rightarrow> 'v \<Rightarrow> ('k \<times> 'v) list" where
  "map_set m k v =
     (if map_has m k then map (\<lambda>(k', v'). if k' = k then (k', v) else (k', v')) m
      else m @ [(k, v)])"

definition cleanupExpiredEventIds :: "int \<Rightarrow> dedup_cache \<Rightarrow> dedup_cache" where
  "cleanupExpiredEventIds now processedEventIds =
     filter (\<lambda>(id, timestamp). \<not> (now - timestamp > EVENT_DEDUP_TTL)) processedEventIds"

definition isEventProcessed ::
    "jsstring option \<Rightarrow> int \<times> int \<Rightarrow> dedup_cache \<Rightarrow> bool \<times> dedup_cache" where
  "isEventProcessed eventId clock processedEventIds =
     (if \<not> truthy eventId then (False, processedEventIds)
      else if map_has processedEventIds (the eventId) then (True, processedEventIds)
      else (False, cleanupExpiredEventIds (snd clock)
                     (map_set processedEventIds (the eventId) (fst clock))))"

text \<open>A sequence of calls, each with its identifier and its two clock readings, in order.\<close>

fun run_calls :: "(jsstring option \<times> int \<times> int) list \<Rightarrow> dedup_cache \<Rightarrow> dedup_cache" where
  "run_calls [] c = c"
| "run_calls ((eventId, clock) # rest) c = run_calls rest (snd (isEventProcessed eventId clock c))"

section \<open>Sender allow-list (monitor.ts)\<close>

text \<open>
  \<open>s.replace(/^(feishu|user|ou_):/i, "")\<close>: the alternatives are tried in order, each followed
  by the colon, anchored at position 0; the first that matches is removed, once (the
  expression has no \<open>g\<close> flag).
\<close>

fun matchIdPrefix :: "jsstring list \<Rightarrow> jsstring \<Rightarrow> nat option" where
  "matchIdPrefix [] s = None"
| "matchIdPrefix (alt # alts) s =
     (if ciStartsWith s (alt @ ascii '':'') then Some (length alt + 1) else matchIdPrefix alts s)"

definition replaceIdPrefix :: "jsstring \<Rightarrow> jsstring" where
  "replaceIdPrefix s =
     (case matchIdPrefix [ascii ''feishu'', ascii ''user'', ascii ''ou_''] s of
        None \<Rightarrow> s
      | Some n \<Rightarrow> drop n s)"

text \<open>
  \<open>String.prototype.toLowerCase\<close> applies Unicode's case mapping, a table that is not part of
  the repository: it is the parameter \<open>toLowerCase\<close>. \<open>asciiToLowerCase\<close> is what it does on
  ASCII strings.
\<close>

definition isSenderAllowed ::
    "(jsstring \<Rightarrow> jsstring) \<Rightarrow> jsstring \<Rightarrow> jsstring list option \<Rightarrow> bool" where
  "isSenderAllowed toLowerCase senderId allowFrom =
     (case allowFrom of
        None \<Rightarrow> True
      | Some entries \<Rightarrow>
          if length entries = 0 then True
          else (let normalizedSenderId = replaceIdPrefix (toLowerCase senderId)
                in list_ex (\<lambda>entry. replaceIdPrefix (toLowerCase entry) = normalizedSenderId)
                     entries))"

definition asciiToLowerCase :: "jsstring \<Rightarrow> jsstring" where
  "asciiToLowerCase s = map (\<lambda>c. if 0x41 \<le> c \<and> c \<le> 0x5A then c + 0x20 else c) s"

section \<open>Command parser (commands.ts)\<close>

datatype CommandType = announcement | add_member | remove_member | list_members

record ParsedCommand =
  cmdType :: CommandType
  args :: jsstring
  mentionedUserIds :: "jsstring list"

text \<open>
  A mention is \<open>{ key?: string; id?: { open_id?: string }; name?: string }\<close>. For \<open>m_id\<close>,
  \<open>None\<close> is a mention without \<open>id\<close> and \<open>Some None\<close> one whose \<open>id\<close> has no \<open>open_id\<close>.
\<close>

record mention =
  m_key :: "jsstring option"
  m_id :: "jsstring option option"
  m_name :: "jsstring option"

text \<open>
  \<open>COMMAND_PREFIXES\<close>, in the order \<open>Object.entries\<close> enumerates it (insertion order). The
  localized prefixes are a slash followed by two CJK characters, written as code units.
\<close>

definition COMMAND_PREFIXES :: "(CommandType \<times> jsstring list) list" where
  "COMMAND_PREFIXES =
     [(announcement, [[0x002F, 0x516C, 0x544A], ascii ''/announcement'']),
      (add_member, [[0x002F, 0x62C9, 0x4EBA], ascii ''/add'']),
      (remove_member, [[0x002F, 0x8E22, 0x4EBA], ascii ''/kick'', ascii ''/remove'']),
      (list_members, [[0x002F, 0x6210, 0x5458], ascii ''/members''])]"

definition mentionedIds :: "mention list \<Rightarrow> jsstring list" where
  "mentionedIds mentions =
     map (\<lambda>m. the (the (m_id m)))
       (filter (\<lambda>m. case m_id m of None \<Rightarrow> False | Some open_id \<Rightarrow> truthy open_id) mentions)"

fun firstPrefix :: "jsstring \<Rightarrow> jsstring list \<Rightarrow> jsstring option" where
  "firstPrefix trimmedText [] = None"
| "firstPrefix trimmedText (prefix # prefixes) =
     (if startsWith trimmedText prefix then Some prefix else firstPrefix trimmedText prefixes)"

fun parseEntries ::
    "(CommandType \<times> jsstring list) list \<Rightarrow> jsstring \<Rightarrow> mention list \<Rightarrow> ParsedCommand option" where
  "parseEntries [] trimmedText mentions = None"
| "parseEntries ((ty, prefixes) # rest) trimmedText mentions =
     (case firstPrefix trimmedText prefixes of
        Some prefix \<Rightarrow>
          Some \<lparr>cmdType = ty,
                args = trim (drop (length prefix) trimmedText),
                mentionedUserIds = mentionedIds mentions\<rparr>
      | None \<Rightarrow> parseEntries rest trimmedText mentions)"

definition parseCommand :: "jsstring \<Rightarrow> mention list \<Rightarrow> ParsedCommand option" where
  "parseCommand text mentions = parseEntries COMMAND_PREFIXES (trim text) mentions"

text \<open>
  The order of the prefixes as the specification lists it: category first, then alias.
\<close>

definition prefix_order :: "(CommandType \<times> jsstring) list" where
  "prefix_order =
     [(announcement, [0x002F, 0x516C, 0x544A]), (announcement, ascii ''/announcement''),
      (add_member, [0x002F, 0x62C9, 0x4EBA]), (add_member, ascii ''/add''),
      (remove_member, [0x002F, 0x8E22, 0x4EBA]), (remove_member, ascii ''/kick''),
      (remove_member, ascii ''/remove''),
      (list_members, [0x002F, 0x6210, 0x5458]), (list_members, ascii ''/members'')]"

section \<open>Outbound API calls (api.ts)\<close>

text \<open>
  The Feishu SDK client is outside the repository. Every call the plugin makes through it is
  a value of type \<open>request\<close>, one constructor per endpoint with the arguments the source
  sends:
  \<^item> \<open>GetChat chatId\<close>: GET /open-apis/im/v1/chats/{chatId};
  \<^item> \<open>GetChatManagers chatId\<close>: GET .../chats/{chatId}/managers;
  \<^item> \<open>GetChatMembers chatId pageToken\<close>: GET .../chats/{chatId}/members, page size 100;
  \<^item> \<open>PostChatMembers chatId id_list\<close>: POST .../chats/{chatId}/members;
  \<^item> \<open>DeleteChatMembers chatId id_list\<close>: DELETE .../chats/{chatId}/members;
  \<^item> \<open>GetAnnouncement chatId\<close>: GET .../chats/{chatId}/announcement;
  \<^item> \<open>PatchAnnouncement chatId revision content\<close>: PATCH .../chats/{chatId}/announcement;
  \<^item> \<open>GetAnnouncementBlocks chatId\<close>: GET /open-apis/docx/v1/chat_announcements/{chatId}/blocks;
  \<^item> \<open>PostAnnouncementChildren chatId block_id content\<close>: POST
    .../chat_announcements/{chatId}/blocks/{block_id}/children, one paragraph at index 0;
  \<^item> \<open>CreateMessage chatId text\<close>: \<open>client.im.message.create\<close>, a text message to a chat id.
\<close>

datatype request =
    GetChat jsstring
  | GetChatManagers jsstring
  | GetChatMembers jsstring "jsstring option"
  | PostChatMembers jsstring "jsstring list"
  | DeleteChatMembers jsstring "jsstring list"
  | GetAnnouncement jsstring
  | PatchAnnouncement jsstring jsstring jsstring
  | GetAnnouncementBlocks jsstring
  | PostAnnouncementChildren jsstring jsstring jsstring
  | CreateMessage jsstring jsstring

text \<open>The requests that change a group: membership add, membership remove, announcement update.\<close>

fun is_mutation :: "request \<Rightarrow> bool" where
  "is_mutation (PostChatMembers chatId ids) = True"
| "is_mutation (DeleteChatMembers chatId ids) = True"
| "is_mutation (PatchAnnouncement chatId base body) = True"
| "is_mutation (PostAnnouncementChildren chatId parent body) = True"
| "is_mutation r = False"

text \<open>
  A response is the JSON object the source casts the SDK's answer to; every field the source
  reads is optional. One record of items serves the three lists the source reads \<open>items\<close>
  from (managers, members, announcement blocks).
\<close>

record item =
  manager_id :: "jsstring option"
  member_id :: "jsstring option"
  item_name :: "jsstring option"
  block_id :: "jsstring option"
  block_type :: "int option"

record response_data =
  owner_id :: "jsstring option"
  chat_name :: "jsstring option"
  items :: "item list option"
  member_list :: "item list option"
  page_token :: "jsstring option"
  has_more :: bool
  invalid_id_list :: "jsstring list option"
  not_existed_id_list :: "jsstring list option"
  revision :: "jsstring option"
  data_content :: "jsstring option"
  message_id :: "jsstring option"

record response =
  code :: "int option"
  msg :: "jsstring option"
  data :: "response_data option"

text \<open>
  A thrown value, with what the source reads from it: whether it is an \<open>Error\<close>, whether it
  is a non-null object, \<open>err.message\<close>, the three fields of an Axios error response
  (\<open>err.response.data.msg\<close>, \<open>err.response.data.code\<close>, \<open>err.response.status\<close>) and
  \<open>String(err)\<close>.
\<close>

record thrown =
  isError :: bool
  isObject :: bool
  err_message :: "jsstring option"
  err_response_msg :: "jsstring option"
  err_response_code :: "int option"
  err_response_status :: "int option"
  asString :: jsstring

datatype outcome = Returns response | Throws thrown

text \<open>
  The platform is a function from the requests issued so far and the current request to the
  outcome of the call: any sequence of answers can be described this way. Every wrapper reads
  the answer inside its \<open>try\<close>, so an answer that is not an object of this shape, on which
  the read itself throws, is an outcome \<open>Throws\<close>.
\<close>

type_synonym sdk = "request list \<Rightarrow> request \<Rightarrow> outcome"

record ResolvedFeishuAccount =
  accountId :: jsstring
  appId :: "jsstring option"
  appSecret :: "jsstring option"

record api_state =
  clientCache :: "jsstring list"
  requests :: "request list"

text \<open>Template literals: \<open>${x}\<close> of an undefined value prints \<open>undefined\<close>; numbers print in decimal.\<close>

definition tmpl :: "jsstring option \<Rightarrow> jsstring" where
  "tmpl x = (case x of None \<Rightarrow> ascii ''undefined'' | Some s \<Rightarrow> s)"

fun natStr :: "nat \<Rightarrow> jsstring" where
  "natStr n = (if n < 10 then [of_nat (48 + n)] else natStr (n div 10) @ [of_nat (48 + n mod 10)])"

declare natStr.simps [simp del]

definition numStr :: "int \<Rightarrow> jsstring" where
  "numStr i = (if i < 0 then ascii ''-'' @ natStr (nat (- i)) else natStr (nat i))"

definition tmplNum :: "int option \<Rightarrow> jsstring" where
  "tmplNum x = (case x of None \<Rightarrow> ascii ''undefined'' | Some i \<Rightarrow> numStr i)"

text \<open>\<open>String.prototype.includes\<close>.\<close>

fun str_includes :: "jsstring \<Rightarrow> jsstring \<Rightarrow> bool" where
  "str_includes [] sub = (sub = [])"
| "str_includes (c # cs) sub = (startsWith (c # cs) sub \<or> str_includes cs sub)"

definition credentialsError :: thrown where
  "credentialsError =
     \<lparr>isError = True, isObject = True,
      err_message = Some (ascii ''Feishu appId and appSecret are required''),
      err_response_msg = None, err_response_code = None, err_response_status = None,
      asString = ascii ''Error: Feishu appId and appSecret are required''\<rparr>"

text \<open>
  \<open>getFeishuClient\<close>: the client cache is keyed by \<open>`${account.appId}`\<close>; a missing client is
  created only when both credentials are present, and the function throws otherwise.
\<close>

definition getFeishuClient ::
    "ResolvedFeishuAccount \<Rightarrow> api_state \<Rightarrow> (thrown + unit) \<times> api_state" where
  "getFeishuClient account s =
     (let cacheKey = tmpl (appId account) in
      if cacheKey \<in> set (clientCache s) then (Inr (), s)
      else if \<not> truthy (appId account) \<or> \<not> truthy (appSecret account)
        then (Inl credentialsError, s)
      else (Inr (), s\<lparr>clientCache := clientCache s @ [cacheKey]\<rparr>))"

definition sdk_request :: "sdk \<Rightarrow> request \<Rightarrow> api_state \<Rightarrow> outcome \<times> api_state" where
  "sdk_request platform r s = (platform (requests s) r, s\<lparr>requests := requests s @ [r]\<rparr>)"

text \<open>\<open>err instanceof Error ? err.message : String(err)\<close>\<close>

definition errMessage :: "thrown \<Rightarrow> jsstring option" where
  "errMessage err = (if isError err then err_message err else Some (asString err))"

text \<open>\<open>response.msg ?? `Feishu API error: ${response.code}`\<close>\<close>

definition apiError :: "response \<Rightarrow> jsstring" where
  "apiError r =
     (case msg r of Some m \<Rightarrow> m | None \<Rightarrow> ascii ''Feishu API error: '' @ tmplNum (code r))"

definition extractFeishuError :: "thrown \<Rightarrow> jsstring" where
  "extractFeishuError err =
     (if isObject err then
        (if truthy (err_response_msg err)
           then the (err_response_msg err) @ ascii '' (code: '' @ tmplNum (err_response_code err)
                  @ ascii '')''
         else if err_response_status err \<noteq> None \<and> err_response_status err \<noteq> Some 0
           then ascii ''HTTP '' @ tmplNum (err_response_status err) @ ascii '': ''
                  @ tmpl (err_message err)
         else if truthy (err_message err) then the (err_message err)
         else asString err)
      else asString err)"

text \<open>
  What the platform did with a call: \<open>call_failed\<close> is a thrown error (a transport error) or
  a response whose code is not 0 (a rejection); \<open>failure_text\<close> is the error text the
  wrappers report for it.
\<close>

definition call_failed :: "outcome \<Rightarrow> bool" where
  "call_failed out = (case out of Throws err \<Rightarrow> True | Returns r \<Rightarrow> code r \<noteq> Some 0)"

definition failure_text :: "outcome \<Rightarrow> jsstring option" where
  "failure_text out = (case out of Throws err \<Rightarrow> errMessage err | Returns r \<Rightarrow> Some (apiError r))"

subsection \<open>Sending and broadcasting\<close>

record send_result =
  sr_success :: bool
  sr_messageId :: "jsstring option"
  sr_error :: "jsstring option"

definition sendFeishuMessage ::
    "sdk \<Rightarrow> ResolvedFeishuAccount \<Rightarrow> jsstring \<Rightarrow> jsstring \<Rightarrow> api_state
      \<Rightarrow> send_result \<times> api_state" where
  "sendFeishuMessage platform account chatId text s =
     (case getFeishuClient account s of
        (Inl err, s1) \<Rightarrow>
          (\<lparr>sr_success = False, sr_messageId = None, sr_error = errMessage err\<rparr>, s1)
      | (Inr client, s1) \<Rightarrow>
          (case sdk_request platform (CreateMessage chatId text) s1 of
             (Throws err, s2) \<Rightarrow>
               (\<lparr>sr_success = False, sr_messageId = None, sr_error = errMessage err\<rparr>, s2)
           | (Returns r, s2) \<Rightarrow>
               if code r \<noteq> Some 0
                 then (\<lparr>sr_success = False, sr_messageId = None,
                         sr_error = Some (apiError r)\<rparr>, s2)
               else (\<lparr>sr_success = True,
                       sr_messageId = (case data r of None \<Rightarrow> None | Some d \<Rightarrow> message_id d),
                       sr_error = None\<rparr>, s2)))"

text \<open>
  \<open>groupIds.map\<close> starts the sends in the order of the list; each runs up to its request
  before the next starts, so the client cache and the request log change in that order.
  \<open>Promise.allSettled\<close> collects one settled promise per destination, in the same order:
  \<open>Inr\<close> is fulfilled, \<open>Inl\<close> is rejected.
\<close>

fun sendAll ::
    "sdk \<Rightarrow> ResolvedFeishuAccount \<Rightarrow> jsstring list \<Rightarrow> jsstring \<Rightarrow> api_state
      \<Rightarrow> (thrown + send_result) list \<times> api_state" where
  "sendAll platform account [] text s = ([], s)"
| "sendAll platform account (chatId # rest) text s =
     (case sendFeishuMessage platform account chatId text s of
        (r, s1) \<Rightarrow>
          (case sendAll platform account rest text s1 of
             (rs, s2) \<Rightarrow> (Inr r # rs, s2)))"

record broadcast_result =
  successCount :: nat
  failedCount :: nat
  errors :: "jsstring list"

text \<open>\<open>groupIds[i]\<close> inside a template literal.\<close>

definition at_index :: "jsstring list \<Rightarrow> nat \<Rightarrow> jsstring" where
  "at_index xs i = tmpl (if i < length xs then Some (xs ! i) else None)"

definition errorMsg :: "thrown + send_result \<Rightarrow> jsstring" where
  "errorMsg result =
     (case result of
        Inl reason \<Rightarrow> asString reason
      | Inr v \<Rightarrow> (case sr_error v of Some e \<Rightarrow> e | None \<Rightarrow> ascii ''Unknown error''))"

definition fulfilled_ok :: "thrown + send_result \<Rightarrow> bool" where
  "fulfilled_ok result = (case result of Inl reason \<Rightarrow> False | Inr v \<Rightarrow> sr_success v)"

fun tally ::
    "jsstring list \<Rightarrow> (thrown + send_result) list \<Rightarrow> nat \<Rightarrow> broadcast_result
      \<Rightarrow> broadcast_result" where
  "tally groupIds [] i acc = acc"
| "tally groupIds (result # results) i acc =
     tally groupIds results (i + 1)
       (if fulfilled_ok result then acc\<lparr>successCount := successCount acc + 1\<rparr>
        else acc\<lparr>failedCount := failedCount acc + 1,
                 errors := errors acc @ [at_index groupIds i @ ascii '': '' @ errorMsg result]\<rparr>)"

definition broadcastToGroups ::
    "sdk \<Rightarrow> ResolvedFeishuAccount \<Rightarrow> jsstring list \<Rightarrow> jsstring \<Rightarrow> api_state
      \<Rightarrow> broadcast_result \<times> api_state" where
  "broadcastToGroups platform account groupIds text s =
     (case sendAll platform account groupIds text s of
        (results, s1) \<Rightarrow>
          (tally groupIds results 0 \<lparr>successCount = 0, failedCount = 0, errors = []\<rparr>, s1))"

text \<open>
  The platform's side of a broadcast: the outcomes of the message requests for the
  destinations, each asked after the requests of the destinations before it, and the text
  that \<open>broadcastToGroups\<close> puts after the destination of a failed one.
\<close>

fun platform_outcomes :: "sdk \<Rightarrow> request list \<Rightarrow> jsstring list \<Rightarrow> jsstring \<Rightarrow> outcome list" where
  "platform_outcomes platform h [] text = []"
| "platform_outcomes platform h (g # gs) text =
     platform h (CreateMessage g text)
       # platform_outcomes platform (h @ [CreateMessage g text]) gs text"

definition failure_message :: "outcome \<Rightarrow> jsstring" where
  "failure_message out =
     (case failure_text out of Some e \<Rightarrow> e | None \<Rightarrow> ascii ''Unknown error'')"

subsection \<open>Example data\<close>

definition example_account :: ResolvedFeishuAccount where
  "example_account =
     \<lparr>accountId = ascii ''default'', appId = Some (ascii ''cli_test''),
      appSecret = Some (ascii ''test_secret'')\<rparr>"

definition fresh_state :: api_state where
  "fresh_state = \<lparr>clientCache = [], requests = []\<rparr>"

definition ok_response :: response where
  "ok_response = \<lparr>code = Some 0, msg = None, data = None\<rparr>"

definition network_error :: "jsstring \<Rightarrow> thrown" where
  "network_error m =
     \<lparr>isError = True, isObject = True, err_message = Some m, err_response_msg = None,
      err_response_code = None, err_response_status = None, asString = ascii ''Error: '' @ m\<rparr>"

text \<open>A platform on which sending to the chat \<open>B\<close> times out and every other call succeeds.\<close>

definition platform_B_fails :: sdk where
  "platform_B_fails history r =
     (case r of
        CreateMessage chatId text \<Rightarrow>
          if chatId = ascii ''B'' then Throws (network_error (ascii ''timeout''))
          else Returns ok_response
      | _ \<Rightarrow> Returns ok_response)"

text \<open>A platform that rejects a message to the chat \<open>B\<close> and accepts every other call.\<close>

definition platform_B_rejected :: sdk where
  "platform_B_rejected history r =
     (case r of
        CreateMessage chatId text \<Rightarrow>
          if chatId = ascii ''B''
            then Returns \<lparr>code = Some 230002, msg = Some (ascii ''Bot is not in the chat''),
                          data = None\<rparr>
          else Returns ok_response
      | _ \<Rightarrow> Returns ok_response)"

section \<open>Group management calls (api.ts)\<close>

subsection \<open>Message texts\<close>

text \<open>
  The user-facing texts of api.ts and commands.ts are Chinese; each is given here as its
  UTF-16 code units, with an English gloss.
\<close>

text \<open>addMembersToGroup on an empty list: \<open>no users to add were given\<close>\<close>

definition MSG_NO_MEMBERS_TO_ADD :: jsstring where
  "MSG_NO_MEMBERS_TO_ADD =
     [0x6CA1, 0x6709, 0x6307, 0x5B9A, 0x8981, 0x6DFB, 0x52A0, 0x7684, 0x7528, 0x6237]"

text \<open>removeMembersFromGroup on an empty list: \<open>no users to remove were given\<close>\<close>

definition MSG_NO_MEMBERS_TO_REMOVE :: jsstring where
  "MSG_NO_MEMBERS_TO_REMOVE =
     [0x6CA1, 0x6709, 0x6307, 0x5B9A, 0x8981, 0x79FB, 0x9664, 0x7684, 0x7528, 0x6237]"

text \<open>updateGroupAnnouncement: \<open>the announcement content must not be empty\<close>\<close>

definition MSG_CONTENT_EMPTY :: jsstring where
  "MSG_CONTENT_EMPTY =
     [0x516C, 0x544A, 0x5185, 0x5BB9, 0x4E0D, 0x80FD, 0x4E3A, 0x7A7A]"

text \<open>updateGroupAnnouncement: \<open>getting the current announcement failed:\<close>\<close>

definition MSG_GET_CURRENT_FAILED :: jsstring where
  "MSG_GET_CURRENT_FAILED =
     [0x83B7, 0x53D6, 0x5F53, 0x524D, 0x516C, 0x544A, 0x5931, 0x8D25, 0xFF1A]"

text \<open>updateDocxAnnouncement: \<open>getting the announcement failed: \<close>\<close>

definition MSG_GET_BLOCKS_FAILED :: jsstring where
  "MSG_GET_BLOCKS_FAILED =
     [0x83B7, 0x53D6, 0x516C, 0x544A, 0x5931, 0x8D25, 0x003A, 0x0020]"

text \<open>updateDocxAnnouncement: \<open>creating the announcement failed: \<close>\<close>

definition MSG_CREATE_BLOCK_FAILED :: jsstring where
  "MSG_CREATE_BLOCK_FAILED =
     [0x521B, 0x5EFA, 0x516C, 0x544A, 0x5931, 0x8D25, 0x003A, 0x0020]"

text \<open>updateDocxAnnouncement: \<open>the root block of the announcement was not found\<close>\<close>

definition MSG_NO_ROOT_BLOCK :: jsstring where
  "MSG_NO_ROOT_BLOCK =
     [0x65E0, 0x6CD5, 0x627E, 0x5230, 0x7FA4, 0x516C, 0x544A, 0x7684, 0x6839, 0x0020, 0x0062,
      0x006C, 0x006F, 0x0063, 0x006B, 0xFF0C, 0x8BF7, 0x786E, 0x4FDD, 0x7FA4, 0x516C, 0x544A,
      0x5DF2, 0x521D, 0x59CB, 0x5316]"

text \<open>executeCommand: \<open>the permission check failed:\<close>\<close>

definition MSG_PERMISSION_CHECK_FAILED :: jsstring where
  "MSG_PERMISSION_CHECK_FAILED =
     [0x6743, 0x9650, 0x68C0, 0x67E5, 0x5931, 0x8D25, 0xFF1A]"

text \<open>executeCommand: \<open>sorry, only the group owner or an administrator can do this.\<close>\<close>

definition MSG_NO_PERMISSION :: jsstring where
  "MSG_NO_PERMISSION =
     [0x62B1, 0x6B49, 0xFF0C, 0x53EA, 0x6709, 0x7FA4, 0x4E3B, 0x6216, 0x7BA1, 0x7406, 0x5458,
      0x624D, 0x80FD, 0x6267, 0x884C, 0x6B64, 0x64CD, 0x4F5C, 0x3002]"

text \<open>usage hint of the announcement command\<close>

definition MSG_ANNOUNCEMENT_USAGE :: jsstring where
  "MSG_ANNOUNCEMENT_USAGE =
     [0x8BF7, 0x63D0, 0x4F9B, 0x516C, 0x544A, 0x5185, 0x5BB9, 0x3002, 0x7528, 0x6CD5, 0xFF1A,
      0x002F, 0x516C, 0x544A, 0x0020, 0x003C, 0x516C, 0x544A, 0x5185, 0x5BB9, 0x003E]"

text \<open>\<open>the group announcement has been updated.\<close>\<close>

definition MSG_ANNOUNCEMENT_UPDATED :: jsstring where
  "MSG_ANNOUNCEMENT_UPDATED =
     [0x7FA4, 0x516C, 0x544A, 0x5DF2, 0x66F4, 0x65B0, 0x3002]"

text \<open>\<open>updating the announcement failed:\<close>\<close>

definition MSG_ANNOUNCEMENT_FAILED :: jsstring where
  "MSG_ANNOUNCEMENT_FAILED =
     [0x66F4, 0x65B0, 0x516C, 0x544A, 0x5931, 0x8D25, 0xFF1A]"

text \<open>usage hint of the add-member command\<close>

definition MSG_ADD_USAGE :: jsstring where
  "MSG_ADD_USAGE =
     [0x8BF7, 0x0040, 0x8981, 0x62C9, 0x5165, 0x7FA4, 0x804A, 0x7684, 0x7528, 0x6237, 0x3002,
      0x7528, 0x6CD5, 0xFF1A, 0x002F, 0x62C9, 0x4EBA, 0x0020, 0x0040, 0x7528, 0x6237, 0x0031,
      0x0020, 0x0040, 0x7528, 0x6237, 0x0032]"

text \<open>\<open>added \<close> (followed by the count)\<close>

definition MSG_ADDED :: jsstring where
  "MSG_ADDED =
     [0x5DF2, 0x62C9, 0x5165, 0x0020]"

text \<open>\<open> users\<close>\<close>

definition MSG_USERS :: jsstring where
  "MSG_USERS =
     [0x0020, 0x4E2A, 0x7528, 0x6237]"

text \<open>full-width opening parenthesis\<close>

definition MSG_PAREN_OPEN :: jsstring where
  "MSG_PAREN_OPEN =
     [0xFF08]"

text \<open>\<open> users are invalid or already in the group)\<close>\<close>

definition MSG_INVALID_OR_PRESENT :: jsstring where
  "MSG_INVALID_OR_PRESENT =
     [0x0020, 0x4E2A, 0x7528, 0x6237, 0x65E0, 0x6548, 0x6216, 0x5DF2, 0x5728, 0x7FA4, 0x5185,
      0xFF09]"

text \<open>\<open>adding failed:\<close>\<close>

definition MSG_ADD_FAILED :: jsstring where
  "MSG_ADD_FAILED =
     [0x62C9, 0x4EBA, 0x5931, 0x8D25, 0xFF1A]"

text \<open>usage hint of the remove-member command\<close>

definition MSG_REMOVE_USAGE :: jsstring where
  "MSG_REMOVE_USAGE =
     [0x8BF7, 0x0040, 0x8981, 0x79FB, 0x9664, 0x7684, 0x7528, 0x6237, 0x3002, 0x7528, 0x6CD5,
      0xFF1A, 0x002F, 0x8E22, 0x4EBA, 0x0020, 0x0040, 0x7528, 0x6237]"

text \<open>\<open>removed \<close> (followed by the count)\<close>

definition MSG_REMOVED :: jsstring where
  "MSG_REMOVED =
     [0x5DF2, 0x79FB, 0x9664, 0x0020]"

text \<open>\<open> users are invalid or not in the group)\<close>\<close>

definition MSG_INVALID_OR_ABSENT :: jsstring where
  "MSG_INVALID_OR_ABSENT =
     [0x0020, 0x4E2A, 0x7528, 0x6237, 0x65E0, 0x6548, 0x6216, 0x4E0D, 0x5728, 0x7FA4, 0x5185,
      0xFF09]"

text \<open>\<open>removing users failed:\<close>\<close>

definition MSG_REMOVE_FAILED :: jsstring where
  "MSG_REMOVE_FAILED =
     [0x79FB, 0x9664, 0x7528, 0x6237, 0x5931, 0x8D25, 0xFF1A]"

text \<open>\<open>getting the member list failed:\<close>\<close>

definition MSG_LIST_FAILED :: jsstring where
  "MSG_LIST_FAILED =
     [0x83B7, 0x53D6, 0x6210, 0x5458, 0x5217, 0x8868, 0x5931, 0x8D25, 0xFF1A]"

text \<open>\<open>no member information for this group.\<close>\<close>

definition MSG_NO_MEMBERS :: jsstring where
  "MSG_NO_MEMBERS =
     [0x7FA4, 0x5185, 0x6682, 0x65E0, 0x6210, 0x5458, 0x4FE1, 0x606F, 0x3002]"

text \<open>\<open>group members:\<close> and a line feed\<close>

definition MSG_LIST_HEADER :: jsstring where
  "MSG_LIST_HEADER =
     [0x7FA4, 0x6210, 0x5458, 0x5217, 0x8868, 0xFF1A, 0x000A]"

text \<open>line feed, \<open>... in total \<close>\<close>

definition MSG_MORE_TOTAL :: jsstring where
  "MSG_MORE_TOTAL =
     [0x000A, 0x002E, 0x002E, 0x002E, 0x0020, 0x5171, 0x0020]"

text \<open>line feed, \<open>in total \<close>\<close>

definition MSG_TOTAL :: jsstring where
  "MSG_TOTAL =
     [0x000A, 0x5171, 0x0020]"

text \<open>\<open> people\<close>\<close>

definition MSG_PEOPLE :: jsstring where
  "MSG_PEOPLE =
     [0x0020, 0x4EBA]"

subsection \<open>Group information and the administrator check\<close>

text \<open>\<open>response.data?.field\<close>\<close>

definition opt_data :: "(response_data \<Rightarrow> 'a option) \<Rightarrow> response \<Rightarrow> 'a option" where
  "opt_data field r = (case data r of None \<Rightarrow> None | Some d \<Rightarrow> field d)"

record group_info =
  gi_ownerId :: "jsstring option"
  gi_name :: "jsstring option"
  gi_error :: "jsstring option"

definition getGroupInfo ::
    "sdk \<Rightarrow> ResolvedFeishuAccount \<Rightarrow> jsstring \<Rightarrow> api_state \<Rightarrow> group_info \<times> api_state" where
  "getGroupInfo platform account chatId s =
     (case getFeishuClient account s of
        (Inl err, s1) \<Rightarrow>
          (\<lparr>gi_ownerId = None, gi_name = None, gi_error = errMessage err\<rparr>, s1)
      | (Inr client, s1) \<Rightarrow>
          (case sdk_request platform (GetChat chatId) s1 of
             (Throws err, s2) \<Rightarrow>
               (\<lparr>gi_ownerId = None, gi_name = None, gi_error = errMessage err\<rparr>, s2)
           | (Returns r, s2) \<Rightarrow>
               if code r \<noteq> Some 0
                 then (\<lparr>gi_ownerId = None, gi_name = None, gi_error = Some (apiError r)\<rparr>, s2)
               else (\<lparr>gi_ownerId = opt_data owner_id r, gi_name = opt_data chat_name r,
                       gi_error = None\<rparr>, s2)))"

record admin_check =
  isAdmin :: bool
  isOwner :: bool
  ac_error :: "jsstring option"

text \<open>
  The whole body of \<open>isUserGroupAdmin\<close> is inside one \<open>try\<close>: a throw of \<open>getFeishuClient\<close> or
  of the managers request ends in the \<open>catch\<close>. A managers response with a non-zero code
  returns \<open>response.msg\<close> as the error, which may be undefined.
\<close>

definition isUserGroupAdmin ::
    "sdk \<Rightarrow> ResolvedFeishuAccount \<Rightarrow> jsstring \<Rightarrow> jsstring \<Rightarrow> api_state
      \<Rightarrow> admin_check \<times> api_state" where
  "isUserGroupAdmin platform account chatId userId s =
     (case getGroupInfo platform account chatId s of
        (groupInfo, s1) \<Rightarrow>
          if truthy (gi_error groupInfo)
            then (\<lparr>isAdmin = False, isOwner = False, ac_error = gi_error groupInfo\<rparr>, s1)
          else if gi_ownerId groupInfo = Some userId
            then (\<lparr>isAdmin = True, isOwner = True, ac_error = None\<rparr>, s1)
          else
            (case getFeishuClient account s1 of
               (Inl err, s2) \<Rightarrow>
                 (\<lparr>isAdmin = False, isOwner = False, ac_error = errMessage err\<rparr>, s2)
             | (Inr client, s2) \<Rightarrow>
                 (case sdk_request platform (GetChatManagers chatId) s2 of
                    (Throws err, s3) \<Rightarrow>
                      (\<lparr>isAdmin = False, isOwner = False, ac_error = errMessage err\<rparr>, s3)
                  | (Returns r, s3) \<Rightarrow>
                      if code r \<noteq> Some 0
                        then (\<lparr>isAdmin = False, isOwner = False, ac_error = msg r\<rparr>, s3)
                      else
                        (let managers = (case opt_data items r of None \<Rightarrow> [] | Some xs \<Rightarrow> xs)
                         in (\<lparr>isAdmin = list_ex (\<lambda>m. manager_id m = Some userId) managers,
                              isOwner = False, ac_error = None\<rparr>, s3)))))"

subsection \<open>Membership\<close>

record member_op =
  mo_success :: bool
  mo_invalidIds :: "jsstring list option"
  mo_error :: "jsstring option"

definition addMembersToGroup ::
    "sdk \<Rightarrow> ResolvedFeishuAccount \<Rightarrow> jsstring \<Rightarrow> jsstring list \<Rightarrow> api_state
      \<Rightarrow> member_op \<times> api_state" where
  "addMembersToGroup platform account chatId memberIds s =
     (if length memberIds = 0
        then (\<lparr>mo_success = False, mo_invalidIds = None,
               mo_error = Some MSG_NO_MEMBERS_TO_ADD\<rparr>, s)
      else
        (case getFeishuClient account s of
           (Inl err, s1) \<Rightarrow>
             (\<lparr>mo_success = False, mo_invalidIds = None, mo_error = errMessage err\<rparr>, s1)
         | (Inr client, s1) \<Rightarrow>
             (case sdk_request platform (PostChatMembers chatId memberIds) s1 of
                (Throws err, s2) \<Rightarrow>
                  (\<lparr>mo_success = False, mo_invalidIds = None, mo_error = errMessage err\<rparr>, s2)
              | (Returns r, s2) \<Rightarrow>
                  if code r \<noteq> Some 0
                    then (\<lparr>mo_success = False, mo_invalidIds = None,
                            mo_error = Some (apiError r)\<rparr>, s2)
                  else
                    (let invalidIds =
                           (case opt_data invalid_id_list r of None \<Rightarrow> [] | Some xs \<Rightarrow> xs)
                           @ (case opt_data not_existed_id_list r of None \<Rightarrow> [] | Some xs \<Rightarrow> xs)
                     in (\<lparr>mo_success = True,
                          mo_invalidIds = (if length invalidIds > 0 then Some invalidIds else None),
                          mo_error = None\<rparr>, s2)))))"

definition removeMembersFromGroup ::
    "sdk \<Rightarrow> ResolvedFeishuAccount \<Rightarrow> jsstring \<Rightarrow> jsstring list \<Rightarrow> api_state
      \<Rightarrow> member_op \<times> api_state" where
  "removeMembersFromGroup platform account chatId memberIds s =
     (if length memberIds = 0
        then (\<lparr>mo_success = False, mo_invalidIds = None,
               mo_error = Some MSG_NO_MEMBERS_TO_REMOVE\<rparr>, s)
      else
        (case getFeishuClient account s of
           (Inl err, s1) \<Rightarrow>
             (\<lparr>mo_success = False, mo_invalidIds = None, mo_error = errMessage err\<rparr>, s1)
         | (Inr client, s1) \<Rightarrow>
             (case sdk_request platform (DeleteChatMembers chatId memberIds) s1 of
                (Throws err, s2) \<Rightarrow>
                  (\<lparr>mo_success = False, mo_invalidIds = None, mo_error = errMessage err\<rparr>, s2)
              | (Returns r, s2) \<Rightarrow>
                  if code r \<noteq> Some 0
                    then (\<lparr>mo_success = False, mo_invalidIds = None,
                            mo_error = Some (apiError r)\<rparr>, s2)
                  else (\<lparr>mo_success = True, mo_invalidIds = opt_data invalid_id_list r,
                          mo_error = None\<rparr>, s2))))"

record member =
  memberId :: jsstring
  mem_name :: "jsstring option"

record members_result =
  mr_members :: "member list"
  mr_error :: "jsstring option"

text \<open>
  One page of \<open>getGroupMembers\<close>: the items with a non-empty \<open>member_id\<close>, read from \<open>items\<close>
  or else from \<open>member_list\<close>, and the token of the next page.
\<close>

definition pageMembers :: "response \<Rightarrow> member list" where
  "pageMembers r =
     map (\<lambda>it. \<lparr>memberId = the (member_id it), mem_name = item_name it\<rparr>)
       (filter (\<lambda>it. truthy (member_id it))
          (case opt_data items r of
             Some xs \<Rightarrow> xs
           | None \<Rightarrow> (case opt_data member_list r of Some ys \<Rightarrow> ys | None \<Rightarrow> [])))"

definition nextPageToken :: "response \<Rightarrow> jsstring option" where
  "nextPageToken r =
     (case data r of None \<Rightarrow> None | Some d \<Rightarrow> if has_more d then page_token d else None)"

text \<open>
  The \<open>do ... while (pageToken)\<close> loop of \<open>getGroupMembers\<close>. Nothing bounds the number of
  pages, so the loop is a partial function: \<open>None\<close> is a run that never returns. The
  \<open>page_token\<close> parameter is sent only when the token is non-empty.
\<close>

partial_function (option) getGroupMembersLoop ::
    "sdk \<Rightarrow> jsstring \<Rightarrow> jsstring option \<Rightarrow> member list \<Rightarrow> api_state
      \<Rightarrow> (members_result \<times> api_state) option" where
  "getGroupMembersLoop platform chatId pageToken members s =
     (case sdk_request platform
             (GetChatMembers chatId (if truthy pageToken then pageToken else None)) s of
        (Throws err, s1) \<Rightarrow> Some (\<lparr>mr_members = [], mr_error = errMessage err\<rparr>, s1)
      | (Returns r, s1) \<Rightarrow>
          if code r \<noteq> Some 0
            then Some (\<lparr>mr_members = [], mr_error = Some (apiError r)\<rparr>, s1)
          else if truthy (nextPageToken r)
            then getGroupMembersLoop platform chatId (nextPageToken r) (members @ pageMembers r) s1
          else Some (\<lparr>mr_members = members @ pageMembers r, mr_error = None\<rparr>, s1))"

definition getGroupMembers ::
    "sdk \<Rightarrow> ResolvedFeishuAccount \<Rightarrow> jsstring \<Rightarrow> api_state
      \<Rightarrow> (members_result \<times> api_state) option" where
  "getGroupMembers platform account chatId s =
     (case getFeishuClient account s of
        (Inl err, s1) \<Rightarrow> Some (\<lparr>mr_members = [], mr_error = errMessage err\<rparr>, s1)
      | (Inr client, s1) \<Rightarrow> getGroupMembersLoop platform chatId None [] s1)"

subsection \<open>Announcements\<close>

record announcement_info =
  an_revision :: "jsstring option"
  an_content :: "jsstring option"
  an_isDocxType :: bool
  an_error :: "jsstring option"

text \<open>The \<open>catch\<close> of \<open>getGroupAnnouncement\<close>, which recognises an upgraded (docx) announcement.\<close>

definition announcementCatch :: "thrown \<Rightarrow> announcement_info" where
  "announcementCatch err =
     (let errorMsg = extractFeishuError err in
      if str_includes errorMsg (ascii ''docx type'') \<or> str_includes errorMsg (ascii ''232097'')
        then \<lparr>an_revision = None, an_content = None, an_isDocxType = True,
               an_error = Some errorMsg\<rparr>
      else \<lparr>an_revision = None, an_content = None, an_isDocxType = False,
             an_error = Some errorMsg\<rparr>)"

definition getGroupAnnouncement ::
    "sdk \<Rightarrow> ResolvedFeishuAccount \<Rightarrow> jsstring \<Rightarrow> api_state
      \<Rightarrow> announcement_info \<times> api_state" where
  "getGroupAnnouncement platform account chatId s =
     (case getFeishuClient account s of
        (Inl err, s1) \<Rightarrow> (announcementCatch err, s1)
      | (Inr client, s1) \<Rightarrow>
          (case sdk_request platform (GetAnnouncement chatId) s1 of
             (Throws err, s2) \<Rightarrow> (announcementCatch err, s2)
           | (Returns r, s2) \<Rightarrow>
               if code r \<noteq> Some 0
                 then (\<lparr>an_revision = None, an_content = None, an_isDocxType = False,
                         an_error = Some (apiError r)\<rparr>, s2)
               else (\<lparr>an_revision = opt_data revision r, an_content = opt_data data_content r,
                       an_isDocxType = False, an_error = None\<rparr>, s2)))"

record update_result =
  up_success :: bool
  up_error :: "jsstring option"

text \<open>
  \<open>updateDocxAnnouncement\<close> calls \<open>getFeishuClient\<close> before its \<open>try\<close>: a throw there leaves
  the function (\<open>Inl\<close>). Everything after it is inside the \<open>try\<close>.
\<close>

definition updateDocxAnnouncement ::
    "sdk \<Rightarrow> ResolvedFeishuAccount \<Rightarrow> jsstring \<Rightarrow> jsstring \<Rightarrow> api_state
      \<Rightarrow> (thrown + update_result) \<times> api_state" where
  "updateDocxAnnouncement platform account chatId content s =
     (case getFeishuClient account s of
        (Inl err, s1) \<Rightarrow> (Inl err, s1)
      | (Inr client, s1) \<Rightarrow>
          (case sdk_request platform (GetAnnouncementBlocks chatId) s1 of
             (Throws err, s2) \<Rightarrow>
               (Inr \<lparr>up_success = False, up_error = Some (extractFeishuError err)\<rparr>, s2)
           | (Returns getBlocksResponse, s2) \<Rightarrow>
               if code getBlocksResponse \<noteq> Some 0
                 then (Inr \<lparr>up_success = False,
                            up_error = Some (case msg getBlocksResponse of
                                               Some m \<Rightarrow> m
                                             | None \<Rightarrow> MSG_GET_BLOCKS_FAILED
                                                         @ tmplNum (code getBlocksResponse))\<rparr>, s2)
               else
                 (let existingBlocks =
                        (case opt_data items getBlocksResponse of None \<Rightarrow> [] | Some xs \<Rightarrow> xs);
                      pageBlock = find (\<lambda>b. block_type b = Some 1) existingBlocks
                  in if pageBlock \<noteq> None \<and> truthy (block_id (the pageBlock))
                       then
                         (case sdk_request platform
                                 (PostAnnouncementChildren chatId
                                    (the (block_id (the pageBlock))) content) s2 of
                            (Throws err, s3) \<Rightarrow>
                              (Inr \<lparr>up_success = False,
                                    up_error = Some (extractFeishuError err)\<rparr>, s3)
                          | (Returns createResponse, s3) \<Rightarrow>
                              if code createResponse \<noteq> Some 0
                                then (Inr \<lparr>up_success = False,
                                           up_error = Some (case msg createResponse of
                                                              Some m \<Rightarrow> m
                                                            | None \<Rightarrow> MSG_CREATE_BLOCK_FAILED
                                                                @ tmplNum (code createResponse))\<rparr>,
                                      s3)
                              else (Inr \<lparr>up_success = True, up_error = None\<rparr>, s3))
                     else (Inr \<lparr>up_success = False, up_error = Some MSG_NO_ROOT_BLOCK\<rparr>, s2))))"

definition updateGroupAnnouncement ::
    "sdk \<Rightarrow> ResolvedFeishuAccount \<Rightarrow> jsstring \<Rightarrow> jsstring \<Rightarrow> api_state
      \<Rightarrow> (thrown + update_result) \<times> api_state" where
  "updateGroupAnnouncement platform account chatId content s =
     (if trim content = []
        then (Inr \<lparr>up_success = False, up_error = Some MSG_CONTENT_EMPTY\<rparr>, s)
      else
        (case getGroupAnnouncement platform account chatId s of
           (currentAnnouncement, s1) \<Rightarrow>
             if an_isDocxType currentAnnouncement
               then updateDocxAnnouncement platform account chatId content s1
             else if truthy (an_error currentAnnouncement)
                     \<and> \<not> an_isDocxType currentAnnouncement
               then (Inr \<lparr>up_success = False,
                          up_error = Some (MSG_GET_CURRENT_FAILED
                                            @ tmpl (an_error currentAnnouncement))\<rparr>, s1)
             else
               (case getFeishuClient account s1 of
                  (Inl err, s2) \<Rightarrow>
                    (Inr \<lparr>up_success = False, up_error = Some (extractFeishuError err)\<rparr>, s2)
                | (Inr client, s2) \<Rightarrow>
                    (case sdk_request platform
                            (PatchAnnouncement chatId
                               (case an_revision currentAnnouncement of
                                  Some v \<Rightarrow> v
                                | None \<Rightarrow> ascii ''0'')
                               content) s2 of
                       (Throws err, s3) \<Rightarrow>
                         (Inr \<lparr>up_success = False,
                               up_error = Some (extractFeishuError err)\<rparr>, s3)
                     | (Returns r, s3) \<Rightarrow>
                         if code r \<noteq> Some 0
                           then (Inr \<lparr>up_success = False, up_error = Some (apiError r)\<rparr>, s3)
                         else (Inr \<lparr>up_success = True, up_error = None\<rparr>, s3)))))"

section \<open>Command executor (commands.ts)\<close>

record CommandContext =
  ctx_chatId :: jsstring
  ctx_senderId :: jsstring
  ctx_messageId :: jsstring
  ctx_mentions :: "mention list"

record CommandResult =
  success :: bool
  message :: jsstring

definition ADMIN_REQUIRED_COMMANDS :: "CommandType list" where
  "ADMIN_REQUIRED_COMMANDS = [announcement, add_member, remove_member]"

definition requiresAdminPermission :: "CommandType \<Rightarrow> bool" where
  "requiresAdminPermission ty = (ty \<in> set ADMIN_REQUIRED_COMMANDS)"

definition executeAnnouncementCommand ::
    "sdk \<Rightarrow> ResolvedFeishuAccount \<Rightarrow> jsstring \<Rightarrow> jsstring \<Rightarrow> api_state
      \<Rightarrow> (thrown + CommandResult) \<times> api_state" where
  "executeAnnouncementCommand platform account chatId content s =
     (if trim content = []
        then (Inr \<lparr>success = False, message = MSG_ANNOUNCEMENT_USAGE\<rparr>, s)
      else
        (case updateGroupAnnouncement platform account chatId content s of
           (Inl err, s1) \<Rightarrow> (Inl err, s1)
         | (Inr result, s1) \<Rightarrow>
             if up_success result
               then (Inr \<lparr>success = True, message = MSG_ANNOUNCEMENT_UPDATED\<rparr>, s1)
             else (Inr \<lparr>success = False,
                        message = MSG_ANNOUNCEMENT_FAILED @ tmpl (up_error result)\<rparr>, s1)))"

text \<open>
  The note on rejected identifiers: empty unless \<open>invalidIds\<close> is a non-empty list.
\<close>

definition invalidNote :: "jsstring list option \<Rightarrow> jsstring \<Rightarrow> jsstring" where
  "invalidNote invalidIds suffix =
     (case invalidIds of
        None \<Rightarrow> []
      | Some ids \<Rightarrow>
          if length ids > 0 then MSG_PAREN_OPEN @ natStr (length ids) @ suffix else [])"

definition executeAddMemberCommand ::
    "sdk \<Rightarrow> ResolvedFeishuAccount \<Rightarrow> jsstring \<Rightarrow> jsstring list \<Rightarrow> api_state
      \<Rightarrow> CommandResult \<times> api_state" where
  "executeAddMemberCommand platform account chatId memberIds s =
     (if length memberIds = 0 then (\<lparr>success = False, message = MSG_ADD_USAGE\<rparr>, s)
      else
        (case addMembersToGroup platform account chatId memberIds s of
           (result, s1) \<Rightarrow>
             if mo_success result
               then (\<lparr>success = True,
                       message = MSG_ADDED @ natStr (length memberIds) @ MSG_USERS
                                   @ invalidNote (mo_invalidIds result) MSG_INVALID_OR_PRESENT\<rparr>,
                     s1)
             else (\<lparr>success = False, message = MSG_ADD_FAILED @ tmpl (mo_error result)\<rparr>, s1)))"

definition executeRemoveMemberCommand ::
    "sdk \<Rightarrow> ResolvedFeishuAccount \<Rightarrow> jsstring \<Rightarrow> jsstring list \<Rightarrow> api_state
      \<Rightarrow> CommandResult \<times> api_state" where
  "executeRemoveMemberCommand platform account chatId memberIds s =
     (if length memberIds = 0 then (\<lparr>success = False, message = MSG_REMOVE_USAGE\<rparr>, s)
      else
        (case removeMembersFromGroup platform account chatId memberIds s of
           (result, s1) \<Rightarrow>
             if mo_success result
               then (\<lparr>success = True,
                       message = MSG_REMOVED @ natStr (length memberIds) @ MSG_USERS
                                   @ invalidNote (mo_invalidIds result) MSG_INVALID_OR_ABSENT\<rparr>,
                     s1)
             else (\<lparr>success = False, message = MSG_REMOVE_FAILED @ tmpl (mo_error result)\<rparr>,
                   s1)))"

text \<open>\<open>Array.prototype.join\<close>\<close>

fun join :: "jsstring \<Rightarrow> jsstring list \<Rightarrow> jsstring" where
  "join sep [] = []"
| "join sep [x] = x"
| "join sep (x # y # ys) = x @ sep @ join sep (y # ys)"

definition memberLine :: "nat \<times> member \<Rightarrow> jsstring" where
  "memberLine im =
     natStr (fst im + 1) @ ascii ''. ''
       @ (case mem_name (snd im) of Some n \<Rightarrow> n | None \<Rightarrow> memberId (snd im))"

definition executeListMembersCommand ::
    "sdk \<Rightarrow> ResolvedFeishuAccount \<Rightarrow> jsstring \<Rightarrow> api_state
      \<Rightarrow> (CommandResult \<times> api_state) option" where
  "executeListMembersCommand platform account chatId s =
     (case getGroupMembers platform account chatId s of
        None \<Rightarrow> None
      | Some (result, s1) \<Rightarrow>
          if truthy (mr_error result)
            then Some (\<lparr>success = False,
                         message = MSG_LIST_FAILED @ tmpl (mr_error result)\<rparr>, s1)
          else if length (mr_members result) = 0
            then Some (\<lparr>success = True, message = MSG_NO_MEMBERS\<rparr>, s1)
          else
            (let members = mr_members result;
                 memberList = join [0x0A] (map memberLine (enumerate 0 (take 50 members)));
                 moreNote = (if length members > 50
                               then MSG_MORE_TOTAL @ natStr (length members) @ MSG_PEOPLE
                             else MSG_TOTAL @ natStr (length members) @ MSG_PEOPLE)
             in Some (\<lparr>success = True, message = MSG_LIST_HEADER @ memberList @ moreNote\<rparr>,
                      s1)))"

text \<open>
  The \<open>switch\<close> of \<open>executeCommand\<close>. Its \<open>default\<close> branch cannot be reached from a value of
  type \<open>CommandType\<close>.
\<close>

definition dispatchCommand ::
    "sdk \<Rightarrow> ResolvedFeishuAccount \<Rightarrow> ParsedCommand \<Rightarrow> jsstring \<Rightarrow> api_state
      \<Rightarrow> ((thrown + CommandResult) \<times> api_state) option" where
  "dispatchCommand platform account command chatId s =
     (case cmdType command of
        announcement \<Rightarrow> Some (executeAnnouncementCommand platform account chatId (args command) s)
      | add_member \<Rightarrow>
          (case executeAddMemberCommand platform account chatId (mentionedUserIds command) s of
             (r, s1) \<Rightarrow> Some (Inr r, s1))
      | remove_member \<Rightarrow>
          (case executeRemoveMemberCommand platform account chatId (mentionedUserIds command) s of
             (r, s1) \<Rightarrow> Some (Inr r, s1))
      | list_members \<Rightarrow>
          (case executeListMembersCommand platform account chatId s of
             None \<Rightarrow> None
           | Some (r, s1) \<Rightarrow> Some (Inr r, s1)))"

text \<open>
  \<open>executeCommand\<close>: \<open>Some (Inr result, s')\<close> when it returns a \<open>CommandResult\<close>,
  \<open>Some (Inl err, s')\<close> when it throws, \<open>None\<close> when it never returns.
\<close>

definition executeCommand ::
    "sdk \<Rightarrow> ResolvedFeishuAccount \<Rightarrow> ParsedCommand \<Rightarrow> CommandContext \<Rightarrow> api_state
      \<Rightarrow> ((thrown + CommandResult) \<times> api_state) option" where
  "executeCommand platform account command context s =
     (if requiresAdminPermission (cmdType command) then
        (case isUserGroupAdmin platform account (ctx_chatId context) (ctx_senderId context) s of
           (permResult, s1) \<Rightarrow>
             if truthy (ac_error permResult)
               then Some (Inr \<lparr>success = False,
                               message = MSG_PERMISSION_CHECK_FAILED
                                           @ tmpl (ac_error permResult)\<rparr>, s1)
             else if \<not> isAdmin permResult \<and> \<not> isOwner permResult
               then Some (Inr \<lparr>success = False, message = MSG_NO_PERMISSION\<rparr>, s1)
             else dispatchCommand platform account command (ctx_chatId context) s1)
      else dispatchCommand platform account command (ctx_chatId context) s)"

text \<open>
  The sender passed the permission check of \<open>executeCommand\<close>: the check reported no error
  and found the sender to be an administrator or the owner.
\<close>

definition permission_granted :: "admin_check \<Rightarrow> bool" where
  "permission_granted perm = (\<not> truthy (ac_error perm) \<and> (isAdmin perm \<or> isOwner perm))"

text \<open>A member page that makes \<open>getGroupMembers\<close> ask for another one.\<close>

definition more_pages :: "outcome \<Rightarrow> bool" where
  "more_pages out =
     (case out of Throws err \<Rightarrow> False | Returns r \<Rightarrow> code r = Some 0 \<and> truthy (nextPageToken r))"

text \<open>The last call of a request log was answered with code 0.\<close>

definition last_call_ok :: "sdk \<Rightarrow> request list \<Rightarrow> bool" where
  "last_call_ok platform reqs =
     (case rev reqs of [] \<Rightarrow> False | req # before \<Rightarrow> \<not> call_failed (platform (rev before) req))"

text \<open>
  The member pages the platform serves, starting from the given page token and request log,
  come to an end within \<open>n\<close> requests: one of them throws, answers a code other than 0, or
  names no further page.
\<close>

fun pages_end_within :: "nat \<Rightarrow> sdk \<Rightarrow> jsstring \<Rightarrow> jsstring option \<Rightarrow> request list \<Rightarrow> bool" where
  "pages_end_within 0 platform chatId pageToken h = False"
| "pages_end_within (Suc n) platform chatId pageToken h =
     (let req = GetChatMembers chatId (if truthy pageToken then pageToken else None) in
      case platform h req of
        Throws err \<Rightarrow> True
      | Returns r \<Rightarrow>
          if code r = Some 0 \<and> truthy (nextPageToken r)
            then pages_end_within n platform chatId (nextPageToken r) (h @ [req])
          else True)"

text \<open>
  A failed call that the command has to report. Every failed call is one, with two
  exceptions. A thrown announcement read whose error text names a docx announcement sends
  the command on to the docx update. And for the chat read, the announcement read and the
  member pages, whose error the caller tests with \<open>if (error)\<close>, only a failure with a
  non-empty error text is required to be reported here.
\<close>

definition reported_failure :: "request \<Rightarrow> outcome \<Rightarrow> bool" where
  "reported_failure req out =
     (call_failed out \<and>
      (case req of
         GetChat chatId \<Rightarrow> truthy (failure_text out)
       | GetChatMembers chatId pageToken \<Rightarrow> truthy (failure_text out)
       | GetAnnouncement chatId \<Rightarrow>
           (case out of
              Throws err \<Rightarrow> \<not> an_isDocxType (announcementCatch err) \<and> extractFeishuError err \<noteq> []
            | Returns r \<Rightarrow> apiError r \<noteq> [])
       | _ \<Rightarrow> True))"

text \<open>No call of a list of requests, issued one after the other from the log \<open>h\<close>, is such a failure.\<close>

fun no_reported_failure :: "sdk \<Rightarrow> request list \<Rightarrow> request list \<Rightarrow> bool" where
  "no_reported_failure platform h [] = True"
| "no_reported_failure platform h (req # rest) =
     (\<not> reported_failure req (platform h req) \<and> no_reported_failure platform (h @ [req]) rest)"

subsection \<open>Example platforms\<close>

definition no_data :: response_data where
  "no_data =
     \<lparr>owner_id = None, chat_name = None, items = None, member_list = None, page_token = None,
      has_more = False, invalid_id_list = None, not_existed_id_list = None, revision = None,
      data_content = None, message_id = None\<rparr>"

definition no_item :: item where
  "no_item =
     \<lparr>manager_id = None, member_id = None, item_name = None, block_id = None,
      block_type = None\<rparr>"

definition ok_with :: "response_data \<Rightarrow> response" where
  "ok_with d = \<lparr>code = Some 0, msg = None, data = Some d\<rparr>"

text \<open>
  A group owned by \<open>ou_owner\<close> and administered by \<open>ou_admin\<close>, with an upgraded (docx)
  announcement. The member list comes in two pages. Adding members succeeds and rejects
  \<open>ou_bad\<close>; removing members times out.
\<close>

definition docx_error :: thrown where
  "docx_error =
     \<lparr>isError = True, isObject = True,
      err_message = Some (ascii ''Request failed with status code 400''),
      err_response_msg = Some (ascii ''This chat announcement is docx type''),
      err_response_code = Some 232097, err_response_status = Some 400,
      asString = ascii ''Error: Request failed with status code 400''\<rparr>"

definition demo_platform :: sdk where
  "demo_platform history r =
     (case r of
        GetChat chatId \<Rightarrow> Returns (ok_with (no_data\<lparr>owner_id := Some (ascii ''ou_owner'')\<rparr>))
      | GetChatManagers chatId \<Rightarrow>
          Returns (ok_with (no_data\<lparr>items := Some [no_item\<lparr>manager_id := Some (ascii ''ou_admin'')\<rparr>]\<rparr>))
      | GetChatMembers chatId pageToken \<Rightarrow>
          (if pageToken = None
             then Returns (ok_with (no_data\<lparr>items := Some [no_item\<lparr>member_id := Some (ascii ''ou_owner''),
                                                                  item_name := Some (ascii ''Li'')\<rparr>],
                                             has_more := True, page_token := Some (ascii ''p2'')\<rparr>))
           else Returns (ok_with (no_data\<lparr>items := Some [no_item\<lparr>member_id := Some (ascii ''ou_admin'')\<rparr>]\<rparr>)))
      | PostChatMembers chatId ids \<Rightarrow>
          Returns (ok_with (no_data\<lparr>invalid_id_list := Some [ascii ''ou_bad'']\<rparr>))
      | DeleteChatMembers chatId ids \<Rightarrow> Throws (network_error (ascii ''timeout''))
      | GetAnnouncement chatId \<Rightarrow> Throws docx_error
      | GetAnnouncementBlocks chatId \<Rightarrow>
          Returns (ok_with (no_data\<lparr>items := Some [no_item\<lparr>block_id := Some (ascii ''blk1''),
                                                               block_type := Some 1\<rparr>]\<rparr>))
      | _ \<Rightarrow> Returns ok_response)"

text \<open>A platform whose member list never ends: every page announces another one.\<close>

definition endless_platform :: sdk where
  "endless_platform history r =
     Returns (ok_with (no_data\<lparr>has_more := True, page_token := Some (ascii ''next'')\<rparr>))"

definition demo_context :: "jsstring \<Rightarrow> CommandContext" where
  "demo_context sender =
     \<lparr>ctx_chatId = ascii ''oc_chat'', ctx_senderId = sender, ctx_messageId = ascii ''om_1'',
      ctx_mentions = []\<rparr>"

definition demo_command :: "CommandType \<Rightarrow> jsstring \<Rightarrow> jsstring list \<Rightarrow> ParsedCommand" where
  "demo_command ty a ids = \<lparr>cmdType = ty, args = a, mentionedUserIds = ids\<rparr>"

text \<open>A platform whose member list request throws an error with an empty message.\<close>

definition silent_failure_platform :: sdk where
  "silent_failure_platform history r = Throws (network_error [])"

text \<open>
  A platform that rejects the chat read and answers every other call as the demo platform
  does; in particular its managers list contains \<open>ou_admin\<close>.
\<close>

definition chat_read_rejected_platform :: sdk where
  "chat_read_rejected_platform history r =
     (case r of
        GetChat chatId \<Rightarrow>
          Returns \<lparr>code = Some 232011, msg = Some (ascii ''chat not found''), data = None\<rparr>
      | _ \<Rightarrow> demo_platform history r)"

section \<open>Connection manager (monitor.ts)\<close>

text \<open>
  A \<open>lark.WSClient\<close> belongs to the SDK; the plugin constructs it, calls \<open>start\<close> and calls
  \<open>stop\<close>. The model keeps every client object ever constructed in a list, an object being
  its index, with the status these three calls leave it in and with the client key of the
  call of \<open>monitorFeishuProvider\<close> that constructed it (the variable \<open>clientKey\<close> that the
  \<open>stop\<close> closure captures together with the client). \<open>activeClients\<close> is the
  \<open>Map<string, lark.WSClient>\<close> from client keys to objects.
\<close>

datatype ws_status = Created | Started | Stopped

record WSClient =
  ws_clientKey :: jsstring
  ws_appId :: jsstring
  ws_appSecret :: jsstring
  ws_status :: ws_status

record monitor_state =
  wsClients :: "WSClient list"
  activeClients :: "(jsstring \<times> nat) list"

definition map_get :: "('k \<times> 'v) list \<Rightarrow> 'k \<Rightarrow> 'v option" where
  "map_get m k = map_of m k"

definition map_delete :: "('k \<times> 'v) list \<Rightarrow> 'k \<Rightarrow> ('k \<times> 'v) list" where
  "map_delete m k = filter (\<lambda>(k', v). k' \<noteq> k) m"

definition set_status :: "nat \<Rightarrow> ws_status \<Rightarrow> WSClient list \<Rightarrow> WSClient list" where
  "set_status i st cs = (if i < length cs then cs[i := (cs ! i)\<lparr>ws_status := st\<rparr>] else cs)"

definition is_live :: "WSClient \<Rightarrow> bool" where
  "is_live c = (ws_status c = Started)"

text \<open>The client key \<open>`${account.accountId}:${account.appId}`\<close>.\<close>

definition clientKey :: "ResolvedFeishuAccount \<Rightarrow> jsstring" where
  "clientKey account = accountId account @ ascii '':'' @ tmpl (appId account)"

text \<open>
  The first block of \<open>monitorFeishuProvider\<close> after the credential check: a client registered
  under the key is stopped and its entry deleted.
\<close>

definition stopExistingClient :: "jsstring \<Rightarrow> monitor_state \<Rightarrow> monitor_state" where
  "stopExistingClient key st =
     (case map_get (activeClients st) key of
        None \<Rightarrow> st
      | Some existingClient \<Rightarrow>
          st\<lparr>wsClients := set_status existingClient Stopped (wsClients st),
             activeClients := map_delete (activeClients st) key\<rparr>)"

text \<open>
  The monitor that \<open>monitorFeishuProvider\<close> returns is \<open>{ account, stop }\<close>. The \<open>stop\<close>
  closure is represented by the two variables it closes over, the client and the key. It
  stops its client and deletes the entry of the key, whichever client the entry holds. The
  listener that \<open>monitorFeishuProvider\<close> adds to the abort signal calls the same closure.
\<close>

record FeishuProviderMonitor =
  mon_account :: ResolvedFeishuAccount
  mon_clientKey :: jsstring
  mon_wsClient :: nat

definition monitor_stop :: "FeishuProviderMonitor \<Rightarrow> monitor_state \<Rightarrow> monitor_state" where
  "monitor_stop m st =
     st\<lparr>wsClients := set_status (mon_wsClient m) Stopped (wsClients st),
        activeClients := map_delete (activeClients st) (mon_clientKey m)\<rparr>"

definition abort_signal :: "FeishuProviderMonitor \<Rightarrow> monitor_state \<Rightarrow> monitor_state" where
  "abort_signal m st = monitor_stop m st"

text \<open>
  The rest of \<open>monitorFeishuProvider\<close>: a new client is constructed, registered under the key
  and started, and the monitor is returned.
\<close>

definition startNewClient ::
    "ResolvedFeishuAccount \<Rightarrow> jsstring \<Rightarrow> monitor_state
      \<Rightarrow> FeishuProviderMonitor \<times> monitor_state" where
  "startNewClient account key st =
     (let wsClient = length (wsClients st);
          st1 = st\<lparr>wsClients := wsClients st
                   @ [\<lparr>ws_clientKey = key, ws_appId = the (appId account),
                       ws_appSecret = the (appSecret account), ws_status = Created\<rparr>]\<rparr>;
          st2 = st1\<lparr>activeClients := map_set (activeClients st1) key wsClient\<rparr>;
          st3 = st2\<lparr>wsClients := set_status wsClient Started (wsClients st2)\<rparr>
      in (\<lparr>mon_account = account, mon_clientKey = key, mon_wsClient = wsClient\<rparr>, st3))"

definition monitorFeishuProvider ::
    "ResolvedFeishuAccount \<Rightarrow> monitor_state
      \<Rightarrow> thrown + FeishuProviderMonitor \<times> monitor_state" where
  "monitorFeishuProvider account st =
     (if \<not> truthy (appId account) \<or> \<not> truthy (appSecret account) then Inl credentialsError
      else Inr (startNewClient account (clientKey account)
                  (stopExistingClient (clientKey account) st)))"

text \<open>
  \<open>stopFeishuMonitor\<close>: every registered client whose key starts with the account id and a
  colon is stopped and its entry deleted.
\<close>

definition stopFeishuMonitor :: "jsstring \<Rightarrow> monitor_state \<Rightarrow> monitor_state" where
  "stopFeishuMonitor account_id st =
     (let mine = filter (\<lambda>(key, client). startsWith key (account_id @ ascii '':'')) (activeClients st)
      in st\<lparr>wsClients := fold (\<lambda>(key, client). set_status client Stopped) mine (wsClients st),
            activeClients := filter (\<lambda>(key, client). \<not> startsWith key (account_id @ ascii '':''))
                               (activeClients st)\<rparr>)"

text \<open>
  The live connections of a key: the clients constructed for it that are started and not
  stopped, registered or not.
\<close>

definition live_connections :: "jsstring \<Rightarrow> monitor_state \<Rightarrow> nat list" where
  "live_connections key st =
     filter (\<lambda>i. ws_clientKey (wsClients st ! i) = key \<and> is_live (wsClients st ! i))
       [0..<length (wsClients st)]"

text \<open>The live connections registered under a key.\<close>

definition live_registered :: "jsstring \<Rightarrow> monitor_state \<Rightarrow> nat list" where
  "live_registered key st =
     filter (\<lambda>i. i < length (wsClients st) \<and> is_live (wsClients st ! i))
       (map snd (filter (\<lambda>(k, i). k = key) (activeClients st)))"

text \<open>The state before any start, and the clients and monitors of the example account.\<close>

definition no_connections :: monitor_state where
  "no_connections = \<lparr>wsClients = [], activeClients = []\<rparr>"

definition example_client :: "ws_status \<Rightarrow> WSClient" where
  "example_client status =
     \<lparr>ws_clientKey = ascii ''default:cli_test'', ws_appId = ascii ''cli_test'',
      ws_appSecret = ascii ''test_secret'', ws_status = status\<rparr>"

definition example_monitor :: "nat \<Rightarrow> FeishuProviderMonitor" where
  "example_monitor wsClient =
     \<lparr>mon_account = example_account, mon_clientKey = ascii ''default:cli_test'',
      mon_wsClient = wsClient\<rparr>"

section \<open>Properties of the deduplication cache\<close>

lemma isEventProcessed_keeps_entry:
  assumes "(e, t0) \<in> set c" and "snd clock - t0 \<le> EVENT_DEDUP_TTL"
  shows "(e, t0) \<in> set (snd (isEventProcessed eventId clock c))"
  using assms
  by (auto simp: isEventProcessed_def cleanupExpiredEventIds_def map_set_def)

lemma run_calls_keeps_entry:
  assumes "(e, t0) \<in> set c"
    and "\<forall>(eventId, clock) \<in> set calls. snd clock - t0 \<le> EVENT_DEDUP_TTL"
  shows "(e, t0) \<in> set (run_calls calls c)"
  using assms
proof (induction calls arbitrary: c)
  case Nil
  then show ?case by simp
next
  case (Cons call calls)
  obtain eventId clock where call: "call = (eventId, clock)"
    by (cases call) auto
  from Cons.prems(2) call have near: "snd clock - t0 \<le> EVENT_DEDUP_TTL"
    by auto
  have "(e, t0) \<in> set (snd (isEventProcessed eventId clock c))"
    by (rule isEventProcessed_keeps_entry [OF Cons.prems(1) near])
  moreover from Cons.prems(2)
  have "\<forall>(eventId, clock) \<in> set calls. snd clock - t0 \<le> EVENT_DEDUP_TTL"
    by auto
  ultimately show ?case
    using Cons.IH call by simp
qed

lemma isEventProcessed_present:
  assumes "(e, t0) \<in> set c" and "e \<noteq> []"
  shows "fst (isEventProcessed (Some e) clock c) = True"
proof -
  from assms(1) have "map_has c e"
    by (force simp: map_has_def)
  with assms(2) show ?thesis
    by (simp add: isEventProcessed_def)
qed

text \<open>
  Claim C9. A call with an absent identifier (\<open>undefined\<close>, or the empty string, which is
  falsy as well) returns false and leaves the cache exactly as it was, whatever the cache
  holds and whatever the clock reads.
\<close>

theorem isEventProcessed_absent_id:
  "isEventProcessed None clock c = (False, c) \<and> isEventProcessed (Some []) clock c = (False, c)"
  by (simp add: isEventProcessed_def)

text \<open>
  Claim C1. Let \<open>e\<close> be a non-empty identifier that the cache does not hold. The first call
  with \<open>e\<close>, at clock readings \<open>t0\<close> (stored) and \<open>t0'\<close> (sweep), returns false. After any
  sequence of further calls whose sweeps all read the clock within the TTL of \<open>t0\<close>, a call
  with \<open>e\<close> returns true.
\<close>

theorem isEventProcessed_first_then_duplicate:
  assumes "e \<noteq> []" and "\<not> map_has c0 e"
    and "t0' - t0 \<le> EVENT_DEDUP_TTL"
    and "\<forall>(eventId, clock) \<in> set calls. snd clock - t0 \<le> EVENT_DEDUP_TTL"
  shows "fst (isEventProcessed (Some e) (t0, t0') c0) = False
       \<and> fst (isEventProcessed (Some e) clock
                (run_calls calls (snd (isEventProcessed (Some e) (t0, t0') c0)))) = True"
proof -
  let ?c1 = "snd (isEventProcessed (Some e) (t0, t0') c0)"
  from assms(1,2) have first: "fst (isEventProcessed (Some e) (t0, t0') c0) = False"
    by (simp add: isEventProcessed_def)
  from assms(1,2,3) have "(e, t0) \<in> set ?c1"
    by (simp add: isEventProcessed_def cleanupExpiredEventIds_def map_set_def)
  then have "(e, t0) \<in> set (run_calls calls ?c1)"
    using assms(4) by (rule run_calls_keeps_entry)
  then have "fst (isEventProcessed (Some e) clock (run_calls calls ?c1)) = True"
    using assms(1) by (rule isEventProcessed_present)
  with first show ?thesis by simp
qed

theorem isEventProcessed_first_then_duplicate_witness:
  "fst (isEventProcessed (Some (ascii ''event-a'')) (1000, 1001) []) = False
 \<and> fst (isEventProcessed (Some (ascii ''event-a'')) (61000, 61000)
         (run_calls [(Some (ascii ''event-b''), 30000, 30001), (None, 40000, 40000),
                     (Some (ascii ''event-a''), 50000, 50000), (Some (ascii ''event-c''), 61000, 61000)]
            (snd (isEventProcessed (Some (ascii ''event-a'')) (1000, 1001) [])))) = True"
proof -
  have h1: "ascii ''event-a'' \<noteq> []"
    by (simp add: ascii_def)
  have h2: "\<not> map_has ([] :: dedup_cache) (ascii ''event-a'')"
    by (simp add: map_has_def)
  have h3: "(1001::int) - 1000 \<le> EVENT_DEDUP_TTL"
    by (simp add: EVENT_DEDUP_TTL_def)
  have h4: "\<forall>(eventId, clock) \<in> set [(Some (ascii ''event-b''), 30000, 30001), (None, 40000, 40000),
                     (Some (ascii ''event-a''), 50000, 50000), (Some (ascii ''event-c''), 61000::int, 61000::int)].
              snd clock - 1000 \<le> EVENT_DEDUP_TTL"
    by (simp add: EVENT_DEDUP_TTL_def)
  show ?thesis
    by (rule isEventProcessed_first_then_duplicate [OF h1 h2 h3 h4])
qed

text \<open>
  Claim C2, as stated, fails: a call with an identifier that is already cached, and a call
  with an absent identifier, both return before the sweep. Here the cache holds one entry of
  age 100000 ms, well beyond the TTL, and both calls leave it in place.
\<close>

theorem isEventProcessed_sweep_counterexample:
  "snd (isEventProcessed (Some (ascii ''old'')) (100000, 100000) [(ascii ''old'', 0)])
     = [(ascii ''old'', 0)]
 \<and> snd (isEventProcessed None (100000, 100000) [(ascii ''old'', 0)]) = [(ascii ''old'', 0)]
 \<and> (100000::int) - 0 > EVENT_DEDUP_TTL"
  by (simp add: isEventProcessed_def map_has_def ascii_def EVENT_DEDUP_TTL_def)

text \<open>
  Claim C2, amended. The sweep runs on exactly the calls that record a new identifier: such a
  call leaves in the cache precisely the old entries and the new one whose age at the sweep's
  clock reading is at most the TTL. A call with an absent identifier or with an identifier
  already in the cache leaves the cache unchanged.
\<close>

theorem isEventProcessed_sweep_on_insert:
  "(truthy eventId \<and> \<not> map_has c (the eventId) \<longrightarrow>
      set (snd (isEventProcessed eventId (t1, t2) c))
        = {(i, ts). (i, ts) \<in> set c \<union> {(the eventId, t1)} \<and> t2 - ts \<le> EVENT_DEDUP_TTL})
 \<and> (\<not> truthy eventId \<or> map_has c (the eventId) \<longrightarrow>
      snd (isEventProcessed eventId (t1, t2) c) = c)"
  by (auto simp: isEventProcessed_def cleanupExpiredEventIds_def map_set_def)

theorem isEventProcessed_sweep_on_insert_witness:
  "set (snd (isEventProcessed (Some (ascii ''new'')) (100000, 100001)
               [(ascii ''old'', 0), (ascii ''mid'', 50000)]))
     = {(ascii ''mid'', 50000), (ascii ''new'', 100000)}
 \<and> snd (isEventProcessed (Some (ascii ''old'')) (100000, 100001) [(ascii ''old'', 0)])
     = [(ascii ''old'', 0)]"
proof -
  have new: "truthy (Some (ascii ''new''))
      \<and> \<not> map_has [(ascii ''old'', 0::int), (ascii ''mid'', 50000)] (the (Some (ascii ''new'')))"
    by (simp add: map_has_def ascii_def)
  have old: "\<not> truthy (Some (ascii ''old''))
      \<or> map_has [(ascii ''old'', 0::int)] (the (Some (ascii ''old'')))"
    by (simp add: map_has_def)
  have "{(i, ts). (i, ts) \<in> set [(ascii ''old'', 0::int), (ascii ''mid'', 50000)]
            \<union> {(the (Some (ascii ''new'')), 100000)} \<and> 100001 - ts \<le> EVENT_DEDUP_TTL}
      = {(ascii ''mid'', 50000), (ascii ''new'', 100000)}"
    by (auto simp: EVENT_DEDUP_TTL_def)
  with new old
    isEventProcessed_sweep_on_insert [of "Some (ascii ''new'')"
      "[(ascii ''old'', 0), (ascii ''mid'', 50000)]" 100000 100001]
    isEventProcessed_sweep_on_insert [of "Some (ascii ''old'')" "[(ascii ''old'', 0)]" 100000 100001]
  show ?thesis by simp
qed

section \<open>Properties of the sender allow-list\<close>

lemma matchIdPrefix_first:
  "ciStartsWith s (ascii ''feishu:'') \<Longrightarrow>
     matchIdPrefix [ascii ''feishu'', ascii ''user'', ascii ''ou_''] s = Some 7"
  by (simp add: ascii_def)

lemma ciStartsWith_first_unit:
  "ciStartsWith s (p # ps) \<Longrightarrow> \<exists>c cs. s = c # cs \<and> asciiUpper c = asciiUpper p"
  by (cases s) auto

lemma id_prefixes_exclusive:
  "\<not> (ciStartsWith s (ascii ''feishu:'') \<and> ciStartsWith s (ascii ''user:''))"
  "\<not> (ciStartsWith s (ascii ''feishu:'') \<and> ciStartsWith s (ascii ''ou_:''))"
  "\<not> (ciStartsWith s (ascii ''user:'') \<and> ciStartsWith s (ascii ''ou_:''))"
  by (cases s; simp add: ascii_def asciiUpper_def)+

lemma replaceIdPrefix_cases:
  "replaceIdPrefix s =
     (if ciStartsWith s (ascii ''feishu:'') then drop 7 s
      else if ciStartsWith s (ascii ''user:'') then drop 5 s
      else if ciStartsWith s (ascii ''ou_:'') then drop 4 s
      else s)"
  by (simp add: replaceIdPrefix_def ascii_def eval_nat_numeral)

text \<open>
  Claim C10. Without an allow-list (undefined or empty) every sender is allowed. Otherwise
  the sender is allowed exactly when some entry equals the sender id after both are
  lowercased and then stripped of one leading \<open>feishu:\<close>, \<open>user:\<close> or \<open>ou_:\<close>, matched
  without regard to case; a string that starts with none of the three is left as it is.
\<close>

theorem isSenderAllowed_spec:
  "isSenderAllowed toLowerCase senderId None
 \<and> isSenderAllowed toLowerCase senderId (Some [])
 \<and> (entries \<noteq> [] \<longrightarrow>
      isSenderAllowed toLowerCase senderId (Some entries)
        = (\<exists>entry \<in> set entries.
             replaceIdPrefix (toLowerCase entry) = replaceIdPrefix (toLowerCase senderId)))
 \<and> (\<forall>p \<in> {ascii ''feishu:'', ascii ''user:'', ascii ''ou_:''}.
      ciStartsWith s p \<longrightarrow> replaceIdPrefix s = drop (length p) s)
 \<and> ((\<forall>p \<in> {ascii ''feishu:'', ascii ''user:'', ascii ''ou_:''}. \<not> ciStartsWith s p)
      \<longrightarrow> replaceIdPrefix s = s)"
proof (intro conjI)
  show "isSenderAllowed toLowerCase senderId None"
    by (simp add: isSenderAllowed_def)
  show "isSenderAllowed toLowerCase senderId (Some [])"
    by (simp add: isSenderAllowed_def)
  show "entries \<noteq> [] \<longrightarrow>
      isSenderAllowed toLowerCase senderId (Some entries)
        = (\<exists>entry \<in> set entries.
             replaceIdPrefix (toLowerCase entry) = replaceIdPrefix (toLowerCase senderId))"
    by (simp add: isSenderAllowed_def list_ex_iff)
  show "\<forall>p \<in> {ascii ''feishu:'', ascii ''user:'', ascii ''ou_:''}.
      ciStartsWith s p \<longrightarrow> replaceIdPrefix s = drop (length p) s"
    using id_prefixes_exclusive [of s]
    by (auto simp: replaceIdPrefix_cases) (simp_all add: ascii_def eval_nat_numeral)
  show "(\<forall>p \<in> {ascii ''feishu:'', ascii ''user:'', ascii ''ou_:''}. \<not> ciStartsWith s p)
      \<longrightarrow> replaceIdPrefix s = s"
    by (simp add: replaceIdPrefix_cases)
qed

theorem isSenderAllowed_spec_witness:
  "isSenderAllowed asciiToLowerCase (ascii ''Feishu:OU_abc123'') (Some [ascii ''ou_000'', ascii ''USER:ou_ABC123''])
 \<and> \<not> isSenderAllowed asciiToLowerCase (ascii ''ou_123456'') (Some [ascii ''ou_789012''])
 \<and> replaceIdPrefix (ascii ''feishu:user:x'') = ascii ''user:x''
 \<and> replaceIdPrefix (ascii ''ou_123456'') = ascii ''ou_123456''"
proof -
  note spec1 = isSenderAllowed_spec [of asciiToLowerCase "ascii ''Feishu:OU_abc123''"
      "[ascii ''ou_000'', ascii ''USER:ou_ABC123'']" "ascii ''feishu:user:x''"]
  note spec2 = isSenderAllowed_spec [of asciiToLowerCase "ascii ''ou_123456''"
      "[ascii ''ou_789012'']" "ascii ''ou_123456''"]
  have a: "isSenderAllowed asciiToLowerCase (ascii ''Feishu:OU_abc123'')
             (Some [ascii ''ou_000'', ascii ''USER:ou_ABC123''])"
    using spec1
    by (simp add: replaceIdPrefix_cases asciiToLowerCase_def ascii_def asciiUpper_def)
  have b: "\<not> isSenderAllowed asciiToLowerCase (ascii ''ou_123456'') (Some [ascii ''ou_789012''])"
    using spec2
    by (simp add: replaceIdPrefix_cases asciiToLowerCase_def ascii_def asciiUpper_def)
  have "ciStartsWith (ascii ''feishu:user:x'') (ascii ''feishu:'')"
    by (simp add: ascii_def asciiUpper_def)
  with spec1 have c: "replaceIdPrefix (ascii ''feishu:user:x'') = ascii ''user:x''"
    by (simp add: ascii_def)
  have "\<forall>p \<in> {ascii ''feishu:'', ascii ''user:'', ascii ''ou_:''}.
          \<not> ciStartsWith (ascii ''ou_123456'') p"
    by (simp add: ascii_def asciiUpper_def)
  with spec2 have d: "replaceIdPrefix (ascii ''ou_123456'') = ascii ''ou_123456''"
    by blast
  from a b c d show ?thesis by simp
qed

section \<open>Properties of the command parser\<close>

lemma parseCommand_find:
  "parseCommand text mentions =
     (case find (\<lambda>(ty, p). startsWith (trim text) p) prefix_order of
        None \<Rightarrow> None
      | Some (ty, p) \<Rightarrow>
          Some \<lparr>cmdType = ty,
                args = trim (drop (length p) (trim text)),
                mentionedUserIds = mentionedIds mentions\<rparr>)"
  by (simp add: parseCommand_def COMMAND_PREFIXES_def prefix_order_def)

text \<open>
  Claim C3. \<open>parseCommand\<close> returns the command of the first entry of the fixed list (category,
  then alias) whose prefix the trimmed text starts with, at position 0 and code unit by code
  unit; \<open>args\<close> is the rest of the trimmed text, trimmed. It returns null exactly when no
  prefix of the list starts the trimmed text. No word boundary is required: a slash, the two
  characters of the announcement prefix and two more CJK characters parse as an announcement
  whose \<open>args\<close> are the last two characters; the announcement word without its slash, and a
  text with a character in front of the slash, return null.
\<close>

theorem parseCommand_prefix_anchored:
  "parseCommand text mentions =
     (case find (\<lambda>(ty, p). startsWith (trim text) p) prefix_order of
        None \<Rightarrow> None
      | Some (ty, p) \<Rightarrow>
          Some \<lparr>cmdType = ty,
                args = trim (drop (length p) (trim text)),
                mentionedUserIds = mentionedIds mentions\<rparr>)
 \<and> (parseCommand text mentions = None
      \<longleftrightarrow> (\<forall>(ty, p) \<in> set prefix_order. \<not> startsWith (trim text) p))
 \<and> parseCommand [0x002F, 0x516C, 0x544A, 0x4E16, 0x754C] []
      = Some \<lparr>cmdType = announcement, args = [0x4E16, 0x754C], mentionedUserIds = []\<rparr>
 \<and> parseCommand [0x516C, 0x544A, 0x5185, 0x5BB9] [] = None
 \<and> parseCommand [0x8BF7, 0x002F, 0x516C, 0x544A, 0x0020, 0x0078] [] = None"
proof (intro conjI)
  show "parseCommand text mentions =
     (case find (\<lambda>(ty, p). startsWith (trim text) p) prefix_order of
        None \<Rightarrow> None
      | Some (ty, p) \<Rightarrow>
          Some \<lparr>cmdType = ty,
                args = trim (drop (length p) (trim text)),
                mentionedUserIds = mentionedIds mentions\<rparr>)"
    by (rule parseCommand_find)
  show "parseCommand text mentions = None
      \<longleftrightarrow> (\<forall>(ty, p) \<in> set prefix_order. \<not> startsWith (trim text) p)"
  proof -
    have "parseCommand text mentions = None
        \<longleftrightarrow> find (\<lambda>(ty, p). startsWith (trim text) p) prefix_order = None"
      by (simp add: parseCommand_find split: option.splits)
    also have "\<dots> \<longleftrightarrow> (\<forall>(ty, p) \<in> set prefix_order. \<not> startsWith (trim text) p)"
      by (auto simp: find_None_iff)
    finally show ?thesis .
  qed
  show "parseCommand [0x002F, 0x516C, 0x544A, 0x4E16, 0x754C] []
      = Some \<lparr>cmdType = announcement, args = [0x4E16, 0x754C], mentionedUserIds = []\<rparr>"
    by (simp add: parseCommand_def COMMAND_PREFIXES_def trim_def isWhiteSpace_def
        mentionedIds_def)
  show "parseCommand [0x516C, 0x544A, 0x5185, 0x5BB9] [] = None"
    by (simp add: parseCommand_def COMMAND_PREFIXES_def trim_def isWhiteSpace_def ascii_def)
  show "parseCommand [0x8BF7, 0x002F, 0x516C, 0x544A, 0x0020, 0x0078] [] = None"
    by (simp add: parseCommand_def COMMAND_PREFIXES_def trim_def isWhiteSpace_def ascii_def)
qed

theorem parseCommand_prefix_anchored_witness:
  "parseCommand (ascii ''  /remove  bob '')
     [\<lparr>m_key = None, m_id = Some (Some (ascii ''ou_1'')), m_name = None\<rparr>,
      \<lparr>m_key = None, m_id = Some None, m_name = Some (ascii ''x'')\<rparr>]
     = Some \<lparr>cmdType = remove_member, args = ascii ''bob'', mentionedUserIds = [ascii ''ou_1'']\<rparr>
 \<and> parseCommand (ascii ''hello /add'') [] = None"
proof -
  have "parseCommand (ascii ''  /remove  bob '')
     [\<lparr>m_key = None, m_id = Some (Some (ascii ''ou_1'')), m_name = None\<rparr>,
      \<lparr>m_key = None, m_id = Some None, m_name = Some (ascii ''x'')\<rparr>]
     = Some \<lparr>cmdType = remove_member, args = ascii ''bob'', mentionedUserIds = [ascii ''ou_1'']\<rparr>"
    using parseCommand_prefix_anchored [of "ascii ''  /remove  bob ''"
      "[\<lparr>m_key = None, m_id = Some (Some (ascii ''ou_1'')), m_name = None\<rparr>,
        \<lparr>m_key = None, m_id = Some None, m_name = Some (ascii ''x'')\<rparr>]"]
    by (simp add: prefix_order_def trim_def isWhiteSpace_def ascii_def mentionedIds_def)
  moreover have "\<forall>(ty, p) \<in> set prefix_order. \<not> startsWith (trim (ascii ''hello /add'')) p"
    by (simp add: prefix_order_def trim_def isWhiteSpace_def ascii_def)
  then have "parseCommand (ascii ''hello /add'') [] = None"
    using parseCommand_prefix_anchored [of "ascii ''hello /add''" "[]"] by blast
  ultimately show ?thesis by simp
qed

section \<open>Properties of the client cache and the request log\<close>

lemma getFeishuClient_cached:
  "tmpl (appId account) \<in> set (clientCache s) \<Longrightarrow> getFeishuClient account s = (Inr (), s)"
  by (simp add: getFeishuClient_def)

lemma getFeishuClient_Inr:
  "getFeishuClient account s = (Inr u, s1) \<Longrightarrow>
     requests s1 = requests s \<and> tmpl (appId account) \<in> set (clientCache s1)
     \<and> set (clientCache s) \<subseteq> set (clientCache s1)"
  by (auto simp: getFeishuClient_def Let_def split: if_splits)

lemma getFeishuClient_Inl:
  "getFeishuClient account s = (Inl err, s1) \<Longrightarrow> s1 = s \<and> err = credentialsError"
  by (auto simp: getFeishuClient_def Let_def split: if_splits)

lemma sdk_request_state:
  "sdk_request platform r s = (out, s1) \<Longrightarrow>
     out = platform (requests s) r \<and> requests s1 = requests s @ [r]
     \<and> clientCache s1 = clientCache s"
  by (auto simp: sdk_request_def)

lemma getFeishuClient_fst_Inr:
  "fst (getFeishuClient account s) = Inr () \<Longrightarrow>
     \<exists>s1. getFeishuClient account s = (Inr (), s1) \<and> requests s1 = requests s
          \<and> tmpl (appId account) \<in> set (clientCache s1)"
  using getFeishuClient_Inr [of account s "()" "snd (getFeishuClient account s)"]
  by (cases "getFeishuClient account s") auto

section \<open>Properties of the broadcast\<close>

lemma tally_zip:
  "length results = length gs \<Longrightarrow>
   tally (pre @ gs) results (length pre) acc =
     \<lparr>successCount = successCount acc + length (filter fulfilled_ok results),
      failedCount = failedCount acc + length (filter (\<lambda>r. \<not> fulfilled_ok r) results),
      errors = errors acc @ map (\<lambda>(g, r). g @ ascii '': '' @ errorMsg r)
                 (filter (\<lambda>(g, r). \<not> fulfilled_ok r) (zip gs results))\<rparr>"
proof (induction results arbitrary: gs pre acc)
  case Nil
  then show ?case by simp
next
  case (Cons r rs)
  then obtain g gs' where gs: "gs = g # gs'" and len: "length rs = length gs'"
    by (cases gs) auto
  let ?acc = "if fulfilled_ok r then acc\<lparr>successCount := successCount acc + 1\<rparr>
        else acc\<lparr>failedCount := failedCount acc + 1,
                 errors := errors acc @ [g @ ascii '': '' @ errorMsg r]\<rparr>"
  have "tally (pre @ gs) (r # rs) (length pre) acc
      = tally ((pre @ [g]) @ gs') rs (length (pre @ [g])) ?acc"
    by (simp add: gs at_index_def tmpl_def)
  also note Cons.IH [OF len, of "pre @ [g]" ?acc]
  finally show ?case
    by (simp add: gs)
qed

lemma sendAll_length:
  "length (fst (sendAll platform account groupIds text s)) = length groupIds"
  by (induction groupIds arbitrary: s) (simp_all add: case_prod_unfold)

lemma sendAll_fulfilled:
  "r \<in> set (fst (sendAll platform account groupIds text s)) \<Longrightarrow> \<exists>v. r = Inr v"
  by (induction groupIds arbitrary: s) (auto simp: case_prod_unfold)

lemma getFeishuClient_credentials:
  "truthy (appId account) \<Longrightarrow> truthy (appSecret account) \<Longrightarrow>
   \<exists>s1. getFeishuClient account s = (Inr (), s1) \<and> requests s1 = requests s"
  by (simp add: getFeishuClient_def Let_def)

lemma sendFeishuMessage_requests:
  assumes "truthy (appId account)" and "truthy (appSecret account)"
  shows "requests (snd (sendFeishuMessage platform account chatId text s))
       = requests s @ [CreateMessage chatId text]"
proof -
  from getFeishuClient_credentials [OF assms, of s]
  obtain s1 where "getFeishuClient account s = (Inr (), s1)" and "requests s1 = requests s"
    by blast
  then show ?thesis
    by (simp add: sendFeishuMessage_def sdk_request_def split: outcome.splits)
qed

lemma sendAll_requests:
  assumes "truthy (appId account)" and "truthy (appSecret account)"
  shows "requests (snd (sendAll platform account groupIds text s))
       = requests s @ map (\<lambda>g. CreateMessage g text) groupIds"
proof (induction groupIds arbitrary: s)
  case Nil
  show ?case by simp
next
  case (Cons g gs)
  show ?case
    using Cons.IH [of "snd (sendFeishuMessage platform account g text s)"]
      sendFeishuMessage_requests [OF assms, of platform g "text" s]
    by (simp add: case_prod_unfold)
qed


lemma sendFeishuMessage_platform:
  assumes "fst (getFeishuClient account s) = Inr ()"
  shows "\<exists>res s1. sendFeishuMessage platform account g text s = (res, s1)
     \<and> sr_success res = (\<not> call_failed (platform (requests s) (CreateMessage g text)))
     \<and> (\<not> sr_success res \<longrightarrow>
          errorMsg (Inr res) = failure_message (platform (requests s) (CreateMessage g text)))
     \<and> requests s1 = requests s @ [CreateMessage g text]
     \<and> fst (getFeishuClient account s1) = Inr ()"
proof -
  from getFeishuClient_fst_Inr [OF assms]
  obtain s0 where s0: "getFeishuClient account s = (Inr (), s0)" "requests s0 = requests s"
      "tmpl (appId account) \<in> set (clientCache s0)"
    by blast
  have again: "fst (getFeishuClient account (s0\<lparr>requests := requests s0 @ [CreateMessage g text]\<rparr>))
      = Inr ()"
    using s0(3) by (simp add: getFeishuClient_cached)
  show ?thesis
    using s0 again
    by (cases "platform (requests s) (CreateMessage g text)")
      (auto simp: sendFeishuMessage_def sdk_request_def call_failed_def errorMsg_def
        failure_message_def failure_text_def)
qed

lemma sendFeishuMessage_no_client:
  assumes "fst (getFeishuClient account s) \<noteq> Inr ()"
  shows "sendFeishuMessage platform account g text s
       = (\<lparr>sr_success = False, sr_messageId = None, sr_error = errMessage credentialsError\<rparr>, s)"
proof (cases "getFeishuClient account s")
  case (Pair res s0)
  with assms obtain err where "res = Inl err"
    by (cases res) auto
  with Pair getFeishuClient_Inl [of account s err s0] show ?thesis
    by (simp add: sendFeishuMessage_def)
qed

lemma sendAll_platform:
  assumes "fst (getFeishuClient account s) = Inr ()"
  shows "length (filter fulfilled_ok (fst (sendAll platform account groupIds text s)))
       = length (filter (\<lambda>out. \<not> call_failed out)
           (platform_outcomes platform (requests s) groupIds text))
     \<and> length (filter (\<lambda>r. \<not> fulfilled_ok r) (fst (sendAll platform account groupIds text s)))
       = length (filter call_failed (platform_outcomes platform (requests s) groupIds text))
     \<and> map (\<lambda>(g, r). g @ ascii '': '' @ errorMsg r)
         (filter (\<lambda>(g, r). \<not> fulfilled_ok r)
            (zip groupIds (fst (sendAll platform account groupIds text s))))
       = map (\<lambda>(g, out). g @ ascii '': '' @ failure_message out)
           (filter (\<lambda>(g, out). call_failed out)
              (zip groupIds (platform_outcomes platform (requests s) groupIds text)))
     \<and> requests (snd (sendAll platform account groupIds text s))
       = requests s @ map (\<lambda>g. CreateMessage g text) groupIds"
  using assms
proof (induction groupIds arbitrary: s)
  case Nil
  show ?case by simp
next
  case (Cons g gs)
  from sendFeishuMessage_platform [OF Cons.prems, of platform g "text"]
  obtain res s1 where one: "sendFeishuMessage platform account g text s = (res, s1)"
      "sr_success res = (\<not> call_failed (platform (requests s) (CreateMessage g text)))"
      "\<not> sr_success res \<longrightarrow>
          errorMsg (Inr res) = failure_message (platform (requests s) (CreateMessage g text))"
      "requests s1 = requests s @ [CreateMessage g text]"
      "fst (getFeishuClient account s1) = Inr ()"
    by blast
  from Cons.IH [OF one(5)] one show ?case
    by (simp add: case_prod_unfold fulfilled_ok_def)
qed

lemma sendAll_no_client:
  assumes "fst (getFeishuClient account s) \<noteq> Inr ()"
  shows "sendAll platform account groupIds text s
       = (map (\<lambda>g. Inr \<lparr>sr_success = False, sr_messageId = None,
                         sr_error = errMessage credentialsError\<rparr>) groupIds, s)"
  using assms
  by (induction groupIds) (simp_all add: sendFeishuMessage_no_client)


text \<open>
  Claim C7. The broadcast settles one send per destination, in order; \<open>successCount\<close> is the
  number of sends that succeeded, \<open>failedCount\<close> the number that did not, and \<open>errors\<close> holds
  one entry, the destination followed by a colon, a space and the error, for each destination
  whose send failed. When a client is available, a send succeeds exactly when the platform
  answers its message request with code 0: a thrown error and a response with another code
  both count as failed, with the thrown message or the response's \<open>msg\<close> as the error, and
  every destination's request is issued whatever the outcomes of the others. When no client
  is available every destination fails with the credentials error and no request is issued.
  For three destinations of which the platform fails only the second, the counts are 2 and 1
  and \<open>errors\<close> is the single entry of the second destination.
\<close>

theorem broadcastToGroups_platform:
  "length (fst (sendAll platform account groupIds text s)) = length groupIds
 \<and> successCount (fst (broadcastToGroups platform account groupIds text s))
     = length (filter fulfilled_ok (fst (sendAll platform account groupIds text s)))
 \<and> failedCount (fst (broadcastToGroups platform account groupIds text s))
     = length (filter (\<lambda>r. \<not> fulfilled_ok r) (fst (sendAll platform account groupIds text s)))
 \<and> errors (fst (broadcastToGroups platform account groupIds text s))
     = map (\<lambda>(g, r). g @ ascii '': '' @ errorMsg r)
         (filter (\<lambda>(g, r). \<not> fulfilled_ok r)
            (zip groupIds (fst (sendAll platform account groupIds text s))))
 \<and> (fst (getFeishuClient account s) = Inr () \<longrightarrow>
      fst (broadcastToGroups platform account groupIds text s)
        = \<lparr>successCount = length (filter (\<lambda>out. \<not> call_failed out)
                              (platform_outcomes platform (requests s) groupIds text)),
           failedCount = length (filter call_failed
                              (platform_outcomes platform (requests s) groupIds text)),
           errors = map (\<lambda>(g, out). g @ ascii '': '' @ failure_message out)
                      (filter (\<lambda>(g, out). call_failed out)
                         (zip groupIds (platform_outcomes platform (requests s) groupIds text)))\<rparr>
      \<and> requests (snd (broadcastToGroups platform account groupIds text s))
          = requests s @ map (\<lambda>g. CreateMessage g text) groupIds)
 \<and> (fst (getFeishuClient account s) \<noteq> Inr () \<longrightarrow>
      fst (broadcastToGroups platform account groupIds text s)
        = \<lparr>successCount = 0, failedCount = length groupIds,
           errors = map (\<lambda>g. g @ ascii '': Feishu appId and appSecret are required'') groupIds\<rparr>
      \<and> snd (broadcastToGroups platform account groupIds text s) = s)
 \<and> (truthy (appId account) \<and> truthy (appSecret account) \<longrightarrow>
      fst (getFeishuClient account s) = Inr ())
 \<and> (fst (getFeishuClient account s) = Inr () \<and> groupIds = [A, B, C]
      \<and> map call_failed (platform_outcomes platform (requests s) groupIds text)
          = [False, True, False]
      \<longrightarrow> fst (broadcastToGroups platform account groupIds text s)
            = \<lparr>successCount = 2, failedCount = 1,
               errors = [B @ ascii '': ''
                           @ failure_message (platform (requests s @ [CreateMessage A text])
                                                (CreateMessage B text))]\<rparr>)"
proof -
  define results where "results = fst (sendAll platform account groupIds text s)"
  define outs where "outs = platform_outcomes platform (requests s) groupIds text"
  define bc where "bc = fst (broadcastToGroups platform account groupIds text s)"
  let ?init = "\<lparr>successCount = 0, failedCount = 0, errors = []\<rparr>"
  have len: "length results = length groupIds"
    unfolding results_def by (rule sendAll_length)
  have bc: "bc = tally groupIds results 0 ?init"
    by (simp add: bc_def results_def broadcastToGroups_def case_prod_unfold)
  have tl: "tally groupIds results 0 ?init =
     \<lparr>successCount = length (filter fulfilled_ok results),
      failedCount = length (filter (\<lambda>r. \<not> fulfilled_ok r) results),
      errors = map (\<lambda>(g, r). g @ ascii '': '' @ errorMsg r)
                 (filter (\<lambda>(g, r). \<not> fulfilled_ok r) (zip groupIds results))\<rparr>"
    using tally_zip [OF len, of "[]" ?init] by simp
  have snd_bc: "snd (broadcastToGroups platform account groupIds text s)
      = snd (sendAll platform account groupIds text s)"
    by (simp add: broadcastToGroups_def case_prod_unfold)
  have with_client: "fst (getFeishuClient account s) = Inr () \<longrightarrow>
      bc = \<lparr>successCount = length (filter (\<lambda>out. \<not> call_failed out) outs),
            failedCount = length (filter call_failed outs),
            errors = map (\<lambda>(g, out). g @ ascii '': '' @ failure_message out)
                       (filter (\<lambda>(g, out). call_failed out) (zip groupIds outs))\<rparr>
      \<and> requests (snd (broadcastToGroups platform account groupIds text s))
          = requests s @ map (\<lambda>g. CreateMessage g text) groupIds"
  proof
    assume "fst (getFeishuClient account s) = Inr ()"
    from sendAll_platform [OF this, of platform groupIds "text"] show
      "bc = \<lparr>successCount = length (filter (\<lambda>out. \<not> call_failed out) outs),
            failedCount = length (filter call_failed outs),
            errors = map (\<lambda>(g, out). g @ ascii '': '' @ failure_message out)
                       (filter (\<lambda>(g, out). call_failed out) (zip groupIds outs))\<rparr>
       \<and> requests (snd (broadcastToGroups platform account groupIds text s))
          = requests s @ map (\<lambda>g. CreateMessage g text) groupIds"
      unfolding bc tl snd_bc by (simp add: results_def outs_def)
  qed
  have without_client: "fst (getFeishuClient account s) \<noteq> Inr () \<longrightarrow>
      bc = \<lparr>successCount = 0, failedCount = length groupIds,
            errors = map (\<lambda>g. g @ ascii '': Feishu appId and appSecret are required'') groupIds\<rparr>
      \<and> snd (broadcastToGroups platform account groupIds text s) = s"
  proof
    assume "fst (getFeishuClient account s) \<noteq> Inr ()"
    note all = sendAll_no_client [OF this, of platform groupIds "text"]
    have r: "results = map (\<lambda>g. Inr \<lparr>sr_success = False, sr_messageId = None,
                         sr_error = errMessage credentialsError\<rparr>) groupIds"
      by (simp add: results_def all)
    have e: "map (\<lambda>(g, r). g @ ascii '': '' @ errorMsg r)
                 (filter (\<lambda>(g, r). \<not> fulfilled_ok r) (zip groupIds results))
        = map (\<lambda>g. g @ ascii '': Feishu appId and appSecret are required'') groupIds"
      unfolding r
      by (induction groupIds)
        (simp_all add: fulfilled_ok_def errorMsg_def errMessage_def credentialsError_def ascii_def)
    show "bc = \<lparr>successCount = 0, failedCount = length groupIds,
            errors = map (\<lambda>g. g @ ascii '': Feishu appId and appSecret are required'') groupIds\<rparr>
      \<and> snd (broadcastToGroups platform account groupIds text s) = s"
      unfolding bc tl e snd_bc by (simp add: r all fulfilled_ok_def)
  qed
  have creds: "truthy (appId account) \<and> truthy (appSecret account) \<longrightarrow>
      fst (getFeishuClient account s) = Inr ()"
    using getFeishuClient_credentials [of account s] by auto
  have three: "fst (getFeishuClient account s) = Inr () \<and> groupIds = [A, B, C]
      \<and> map call_failed outs = [False, True, False]
      \<longrightarrow> bc = \<lparr>successCount = 2, failedCount = 1,
                 errors = [B @ ascii '': ''
                             @ failure_message (platform (requests s @ [CreateMessage A text])
                                                  (CreateMessage B text))]\<rparr>"
  proof (intro impI, elim conjE)
    assume c: "fst (getFeishuClient account s) = Inr ()" and g: "groupIds = [A, B, C]"
      and f: "map call_failed outs = [False, True, False]"
    have o: "outs = [platform (requests s) (CreateMessage A text),
        platform (requests s @ [CreateMessage A text]) (CreateMessage B text),
        platform (requests s @ [CreateMessage A text, CreateMessage B text]) (CreateMessage C text)]"
      by (simp add: outs_def g)
    from with_client c have "bc = \<lparr>successCount = length (filter (\<lambda>out. \<not> call_failed out) outs),
            failedCount = length (filter call_failed outs),
            errors = map (\<lambda>(g, out). g @ ascii '': '' @ failure_message out)
                       (filter (\<lambda>(g, out). call_failed out) (zip groupIds outs))\<rparr>"
      by simp
    with f show "bc = \<lparr>successCount = 2, failedCount = 1,
                 errors = [B @ ascii '': ''
                             @ failure_message (platform (requests s @ [CreateMessage A text])
                                                  (CreateMessage B text))]\<rparr>"
      by (simp add: o g)
  qed
  from len bc tl with_client without_client creds three show ?thesis
    unfolding results_def bc_def outs_def by simp
qed


theorem broadcastToGroups_platform_witness:
  "fst (broadcastToGroups platform_B_rejected example_account
          [ascii ''A'', ascii ''B'', ascii ''C''] (ascii ''hi'') fresh_state)
     = \<lparr>successCount = 2, failedCount = 1, errors = [ascii ''B: Bot is not in the chat'']\<rparr>
 \<and> fst (broadcastToGroups platform_B_fails example_account
          [ascii ''A'', ascii ''B'', ascii ''C''] (ascii ''hi'') fresh_state)
     = \<lparr>successCount = 2, failedCount = 1, errors = [ascii ''B: timeout'']\<rparr>
 \<and> requests (snd (broadcastToGroups platform_B_rejected example_account
                     [ascii ''A'', ascii ''B'', ascii ''C''] (ascii ''hi'') fresh_state))
     = [CreateMessage (ascii ''A'') (ascii ''hi''), CreateMessage (ascii ''B'') (ascii ''hi''),
        CreateMessage (ascii ''C'') (ascii ''hi'')]
 \<and> fst (broadcastToGroups platform_B_rejected
          \<lparr>accountId = ascii ''default'', appId = None, appSecret = None\<rparr>
          [ascii ''A'', ascii ''B''] (ascii ''hi'') fresh_state)
     = \<lparr>successCount = 0, failedCount = 2,
        errors = [ascii ''A: Feishu appId and appSecret are required'',
                  ascii ''B: Feishu appId and appSecret are required'']\<rparr>"
proof -
  let ?groupIds = "[ascii ''A'', ascii ''B'', ascii ''C'']"
  let ?nocreds = "\<lparr>accountId = ascii ''default'', appId = None, appSecret = None\<rparr>"
  have client: "fst (getFeishuClient example_account fresh_state) = Inr ()"
    by (simp add: getFeishuClient_def example_account_def fresh_state_def tmpl_def ascii_def)
  have rejected: "fst (getFeishuClient example_account fresh_state) = Inr ()
      \<and> ?groupIds = [ascii ''A'', ascii ''B'', ascii ''C'']
      \<and> map call_failed (platform_outcomes platform_B_rejected (requests fresh_state) ?groupIds
            (ascii ''hi'')) = [False, True, False]"
    using client
    by (simp add: platform_B_rejected_def call_failed_def ok_response_def ascii_def)
  have thrown: "fst (getFeishuClient example_account fresh_state) = Inr ()
      \<and> ?groupIds = [ascii ''A'', ascii ''B'', ascii ''C'']
      \<and> map call_failed (platform_outcomes platform_B_fails (requests fresh_state) ?groupIds
            (ascii ''hi'')) = [False, True, False]"
    using client
    by (simp add: platform_B_fails_def call_failed_def ok_response_def ascii_def)
  have m1: "ascii ''B'' @ ascii '': '' @ failure_message (platform_B_rejected
        (requests fresh_state @ [CreateMessage (ascii ''A'') (ascii ''hi'')])
        (CreateMessage (ascii ''B'') (ascii ''hi''))) = ascii ''B: Bot is not in the chat''"
    by (simp add: platform_B_rejected_def failure_message_def failure_text_def apiError_def
        ascii_def)
  have m2: "ascii ''B'' @ ascii '': '' @ failure_message (platform_B_fails
        (requests fresh_state @ [CreateMessage (ascii ''A'') (ascii ''hi'')])
        (CreateMessage (ascii ''B'') (ascii ''hi''))) = ascii ''B: timeout''"
    by (simp add: platform_B_fails_def failure_message_def failure_text_def errMessage_def
        network_error_def ascii_def)
  have none: "fst (getFeishuClient ?nocreds fresh_state) \<noteq> Inr ()"
    by (simp add: getFeishuClient_def fresh_state_def tmpl_def ascii_def)
  have e: "map (\<lambda>g. g @ ascii '': Feishu appId and appSecret are required'')
        [ascii ''A'', ascii ''B'']
      = [ascii ''A: Feishu appId and appSecret are required'',
         ascii ''B: Feishu appId and appSecret are required'']"
    by (simp add: ascii_def)
  from broadcastToGroups_platform [of platform_B_rejected example_account ?groupIds "ascii ''hi''"
      fresh_state "ascii ''A''" "ascii ''B''" "ascii ''C''"] rejected m1
  have first: "fst (broadcastToGroups platform_B_rejected example_account ?groupIds (ascii ''hi'')
        fresh_state)
      = \<lparr>successCount = 2, failedCount = 1, errors = [ascii ''B: Bot is not in the chat'']\<rparr>"
    and log: "requests (snd (broadcastToGroups platform_B_rejected example_account ?groupIds
        (ascii ''hi'') fresh_state))
      = [CreateMessage (ascii ''A'') (ascii ''hi''), CreateMessage (ascii ''B'') (ascii ''hi''),
         CreateMessage (ascii ''C'') (ascii ''hi'')]"
    by (simp_all add: fresh_state_def)
  from broadcastToGroups_platform [of platform_B_fails example_account ?groupIds "ascii ''hi''"
      fresh_state "ascii ''A''" "ascii ''B''" "ascii ''C''"] thrown m2
  have second: "fst (broadcastToGroups platform_B_fails example_account ?groupIds (ascii ''hi'')
        fresh_state)
      = \<lparr>successCount = 2, failedCount = 1, errors = [ascii ''B: timeout'']\<rparr>"
    by simp
  from broadcastToGroups_platform [of platform_B_rejected ?nocreds "[ascii ''A'', ascii ''B'']"
      "ascii ''hi''" fresh_state] none e
  have third: "fst (broadcastToGroups platform_B_rejected ?nocreds [ascii ''A'', ascii ''B'']
        (ascii ''hi'') fresh_state)
      = \<lparr>successCount = 0, failedCount = 2,
         errors = [ascii ''A: Feishu appId and appSecret are required'',
                   ascii ''B: Feishu appId and appSecret are required'']\<rparr>"
    by simp
  from first second log third show ?thesis by simp
qed

section \<open>Properties of the command executor\<close>

text \<open>The administrator check issues at most the two read requests and keeps the client cached.\<close>

lemma getGroupInfo_requests:
  "getGroupInfo platform account chatId s = (info, s1) \<Longrightarrow>
     (requests s1 = requests s \<or> requests s1 = requests s @ [GetChat chatId])
     \<and> set (clientCache s) \<subseteq> set (clientCache s1)"
  by (auto simp: getGroupInfo_def dest!: getFeishuClient_Inr getFeishuClient_Inl sdk_request_state
      split: prod.splits sum.splits outcome.splits if_splits)

lemma isUserGroupAdmin_requests:
  "isUserGroupAdmin platform account chatId userId s = (perm, s1) \<Longrightarrow>
     (requests s1 = requests s \<or> requests s1 = requests s @ [GetChat chatId]
      \<or> requests s1 = requests s @ [GetChatManagers chatId]
      \<or> requests s1 = requests s @ [GetChat chatId, GetChatManagers chatId])
     \<and> set (clientCache s) \<subseteq> set (clientCache s1)"
  apply (simp add: isUserGroupAdmin_def split: prod.splits if_splits sum.splits outcome.splits)
  apply (auto dest!: getGroupInfo_requests getFeishuClient_Inr getFeishuClient_Inl sdk_request_state)
  done

lemma executeCommand_denied:
  assumes "requiresAdminPermission (cmdType command)"
    and "isUserGroupAdmin platform account (ctx_chatId context) (ctx_senderId context) s = (perm, s1)"
    and "\<not> isAdmin perm" and "\<not> isOwner perm"
  shows "executeCommand platform account command context s =
     Some (Inr \<lparr>success = False,
                message = (if truthy (ac_error perm)
                           then MSG_PERMISSION_CHECK_FAILED @ tmpl (ac_error perm)
                           else MSG_NO_PERMISSION)\<rparr>, s1)"
  using assms by (simp add: executeCommand_def)


text \<open>
  Claim C4. Take a command of type announcement, add_member or remove_member. Suppose the
  permission query succeeds: a client is available, the platform answers the chat request
  with code 0 and an owner other than the sender, and the managers request with code 0 and a
  list that does not contain the sender. Then \<open>executeCommand\<close> returns \<open>success: false\<close>
  with the fixed no-permission message, and the only requests it issues are the two reads of
  the permission query: no membership or announcement mutation is requested.
\<close>

theorem executeCommand_permission_denied:
  assumes ty: "cmdType command \<in> {announcement, add_member, remove_member}"
    and client: "fst (getFeishuClient account s) = Inr ()"
    and info: "platform (requests s) (GetChat (ctx_chatId context)) = Returns info"
      "code info = Some 0"
      "opt_data owner_id info \<noteq> Some (ctx_senderId context)"
    and mgrs: "platform (requests s @ [GetChat (ctx_chatId context)])
                 (GetChatManagers (ctx_chatId context)) = Returns managers"
      "code managers = Some 0"
      "\<forall>m \<in> set (case opt_data items managers of None \<Rightarrow> [] | Some xs \<Rightarrow> xs).
          manager_id m \<noteq> Some (ctx_senderId context)"
  shows "\<exists>s'. executeCommand platform account command context s
               = Some (Inr \<lparr>success = False, message = MSG_NO_PERMISSION\<rparr>, s')
            \<and> requests s' = requests s @ [GetChat (ctx_chatId context),
                                           GetChatManagers (ctx_chatId context)]
            \<and> (\<forall>r \<in> set (drop (length (requests s)) (requests s')). \<not> is_mutation r)"
proof -
  let ?chat = "ctx_chatId context" and ?sender = "ctx_senderId context"
  from getFeishuClient_fst_Inr [OF client]
  obtain s1 where s1: "getFeishuClient account s = (Inr (), s1)" "requests s1 = requests s"
      "tmpl (appId account) \<in> set (clientCache s1)"
    by blast
  define s2 where "s2 = s1\<lparr>requests := requests s1 @ [GetChat ?chat]\<rparr>"
  have gi: "getGroupInfo platform account ?chat s
      = (\<lparr>gi_ownerId = opt_data owner_id info, gi_name = opt_data chat_name info,
          gi_error = None\<rparr>, s2)"
    using s1 info by (simp add: getGroupInfo_def sdk_request_def s2_def)
  have c2: "getFeishuClient account s2 = (Inr (), s2)"
    using s1(3) by (simp add: getFeishuClient_cached s2_def)
  define s3 where "s3 = s2\<lparr>requests := requests s2 @ [GetChatManagers ?chat]\<rparr>"
  have r2: "requests s2 = requests s @ [GetChat ?chat]"
    by (simp add: s2_def s1)
  have adm: "isUserGroupAdmin platform account ?chat ?sender s
      = (\<lparr>isAdmin = False, isOwner = False, ac_error = None\<rparr>, s3)"
    using gi c2 info(3) mgrs
    by (simp add: isUserGroupAdmin_def sdk_request_def r2 s3_def list_ex_iff)
  have req: "requiresAdminPermission (cmdType command)"
    using ty by (auto simp: requiresAdminPermission_def ADMIN_REQUIRED_COMMANDS_def)
  have "executeCommand platform account command context s
      = Some (Inr \<lparr>success = False, message = MSG_NO_PERMISSION\<rparr>, s3)"
    using executeCommand_denied [OF req adm] by simp
  moreover have "requests s3 = requests s @ [GetChat ?chat, GetChatManagers ?chat]"
    by (simp add: s3_def r2)
  ultimately show ?thesis by simp
qed


theorem executeCommand_permission_denied_witness:
  "\<exists>s'. executeCommand demo_platform example_account
           (demo_command remove_member [] [ascii ''ou_owner'']) (demo_context (ascii ''ou_sender''))
           fresh_state
         = Some (Inr \<lparr>success = False, message = MSG_NO_PERMISSION\<rparr>, s')
      \<and> requests s' = [GetChat (ascii ''oc_chat''), GetChatManagers (ascii ''oc_chat'')]"
proof -
  let ?info = "ok_with (no_data\<lparr>owner_id := Some (ascii ''ou_owner'')\<rparr>)"
  let ?managers = "ok_with (no_data\<lparr>items := Some [no_item\<lparr>manager_id := Some (ascii ''ou_admin'')\<rparr>]\<rparr>)"
  let ?ctx = "demo_context (ascii ''ou_sender'')"
  have ty: "cmdType (demo_command remove_member [] [ascii ''ou_owner''])
      \<in> {announcement, add_member, remove_member}"
    by (simp add: demo_command_def)
  have client: "fst (getFeishuClient example_account fresh_state) = Inr ()"
    by (simp add: getFeishuClient_def example_account_def fresh_state_def tmpl_def ascii_def)
  have i1: "demo_platform (requests fresh_state) (GetChat (ctx_chatId ?ctx)) = Returns ?info"
    by (simp add: demo_platform_def)
  have i2: "code ?info = Some 0"
    by (simp add: ok_with_def)
  have i3: "opt_data owner_id ?info \<noteq> Some (ctx_senderId ?ctx)"
    by (simp add: opt_data_def ok_with_def no_data_def demo_context_def ascii_def)
  have m1: "demo_platform (requests fresh_state @ [GetChat (ctx_chatId ?ctx)])
      (GetChatManagers (ctx_chatId ?ctx)) = Returns ?managers"
    by (simp add: demo_platform_def)
  have m2: "code ?managers = Some 0"
    by (simp add: ok_with_def)
  have m3: "\<forall>m \<in> set (case opt_data items ?managers of None \<Rightarrow> [] | Some xs \<Rightarrow> xs).
      manager_id m \<noteq> Some (ctx_senderId ?ctx)"
    by (simp add: opt_data_def ok_with_def no_data_def no_item_def demo_context_def ascii_def)
  from executeCommand_permission_denied [OF ty client i1 i2 i3 m1 m2 m3]
  show ?thesis
    by (auto simp: fresh_state_def demo_context_def)
qed


lemma getGroupInfo_owner_cached:
  "getGroupInfo platform account chatId s = (info, s1) \<Longrightarrow> gi_ownerId info \<noteq> None \<Longrightarrow>
     tmpl (appId account) \<in> set (clientCache s1)"
  by (auto simp: getGroupInfo_def dest!: getFeishuClient_Inr sdk_request_state
      split: prod.splits sum.splits outcome.splits if_splits)

lemma isUserGroupAdmin_passed_cached:
  "isUserGroupAdmin platform account chatId userId s = (perm, s1) \<Longrightarrow>
     isAdmin perm \<or> isOwner perm \<Longrightarrow> tmpl (appId account) \<in> set (clientCache s1)"
  apply (simp add: isUserGroupAdmin_def split: prod.splits if_splits sum.splits outcome.splits)
  apply (auto dest!: getGroupInfo_owner_cached getFeishuClient_Inr sdk_request_state)
  done

lemma executeCommand_passed:
  assumes "isUserGroupAdmin platform account (ctx_chatId context) (ctx_senderId context) s = (perm, s1)"
    and "permission_granted perm"
  shows "executeCommand platform account command context s =
     (if requiresAdminPermission (cmdType command)
      then dispatchCommand platform account command (ctx_chatId context) s1
      else dispatchCommand platform account command (ctx_chatId context) s)"
  using assms by (auto simp: executeCommand_def permission_granted_def)

lemma no_mutation_after_check:
  assumes "isUserGroupAdmin platform account chatId userId s = (perm, s1)"
  shows "\<forall>r \<in> set (drop (length (requests s)) (requests s1)). \<not> is_mutation r"
  using isUserGroupAdmin_requests [OF assms] by auto

text \<open>
  Claim C6, amended. For an add_member command with no mentioned user, \<open>executeCommand\<close>
  returns \<open>success: false\<close> and issues no mutation request; its message is the usage hint
  when the sender passes the permission check, and the message of the permission check
  otherwise. With at least one mentioned user, a sender who passes the check and a platform
  that answers the membership request with code 0, it returns \<open>success: true\<close> with a
  message that carries the number of mentioned users, followed by a note with the number of
  rejected identifiers when there are any.
\<close>

theorem executeCommand_add_member:
  assumes ty: "cmdType command = add_member"
    and adm: "isUserGroupAdmin platform account (ctx_chatId context) (ctx_senderId context) s
                = (perm, s1)"
  shows "(mentionedUserIds command = [] \<longrightarrow>
            executeCommand platform account command context s
              = Some (Inr \<lparr>success = False,
                           message = (if truthy (ac_error perm)
                                        then MSG_PERMISSION_CHECK_FAILED @ tmpl (ac_error perm)
                                      else if \<not> isAdmin perm \<and> \<not> isOwner perm
                                        then MSG_NO_PERMISSION
                                      else MSG_ADD_USAGE)\<rparr>, s1)
            \<and> (\<forall>r \<in> set (drop (length (requests s)) (requests s1)). \<not> is_mutation r))
       \<and> (mentionedUserIds command \<noteq> [] \<and> permission_granted perm
            \<and> platform (requests s1)
                 (PostChatMembers (ctx_chatId context) (mentionedUserIds command)) = Returns r
            \<and> code r = Some 0 \<longrightarrow>
            executeCommand platform account command context s
              = Some (Inr \<lparr>success = True,
                           message = MSG_ADDED @ natStr (length (mentionedUserIds command))
                             @ MSG_USERS
                             @ (let rejected =
                                      (case opt_data invalid_id_list r of None \<Rightarrow> [] | Some xs \<Rightarrow> xs)
                                      @ (case opt_data not_existed_id_list r of
                                           None \<Rightarrow> [] | Some xs \<Rightarrow> xs)
                                in if rejected = [] then []
                                   else MSG_PAREN_OPEN @ natStr (length rejected)
                                          @ MSG_INVALID_OR_PRESENT)\<rparr>,
                      s1\<lparr>requests := requests s1
                            @ [PostChatMembers (ctx_chatId context) (mentionedUserIds command)]\<rparr>))"
proof (intro conjI impI)
  have req: "requiresAdminPermission add_member"
    by (simp add: requiresAdminPermission_def ADMIN_REQUIRED_COMMANDS_def)
  {
    assume empty: "mentionedUserIds command = []"
    show "executeCommand platform account command context s
              = Some (Inr \<lparr>success = False,
                           message = (if truthy (ac_error perm)
                                        then MSG_PERMISSION_CHECK_FAILED @ tmpl (ac_error perm)
                                      else if \<not> isAdmin perm \<and> \<not> isOwner perm
                                        then MSG_NO_PERMISSION
                                      else MSG_ADD_USAGE)\<rparr>, s1)"
      using req adm empty ty
      by (simp add: executeCommand_def dispatchCommand_def executeAddMemberCommand_def)
    show "\<forall>r \<in> set (drop (length (requests s)) (requests s1)). \<not> is_mutation r"
      by (rule no_mutation_after_check [OF adm])
  }
  {
    assume h: "mentionedUserIds command \<noteq> [] \<and> permission_granted perm
            \<and> platform (requests s1)
                 (PostChatMembers (ctx_chatId context) (mentionedUserIds command)) = Returns r
            \<and> code r = Some 0"
    then have passed: "permission_granted perm" by simp
    then have "isAdmin perm \<or> isOwner perm"
      by (simp add: permission_granted_def)
    from isUserGroupAdmin_passed_cached [OF adm this]
    have client: "getFeishuClient account s1 = (Inr (), s1)"
      by (rule getFeishuClient_cached)
    have add: "addMembersToGroup platform account (ctx_chatId context) (mentionedUserIds command) s1
        = (\<lparr>mo_success = True,
            mo_invalidIds =
              (let rejected = (case opt_data invalid_id_list r of None \<Rightarrow> [] | Some xs \<Rightarrow> xs)
                     @ (case opt_data not_existed_id_list r of None \<Rightarrow> [] | Some xs \<Rightarrow> xs)
               in if length rejected > 0 then Some rejected else None),
            mo_error = None\<rparr>,
           s1\<lparr>requests := requests s1
                 @ [PostChatMembers (ctx_chatId context) (mentionedUserIds command)]\<rparr>)"
      using h client by (simp add: addMembersToGroup_def sdk_request_def Let_def)
    show "executeCommand platform account command context s
              = Some (Inr \<lparr>success = True,
                           message = MSG_ADDED @ natStr (length (mentionedUserIds command))
                             @ MSG_USERS
                             @ (let rejected =
                                      (case opt_data invalid_id_list r of None \<Rightarrow> [] | Some xs \<Rightarrow> xs)
                                      @ (case opt_data not_existed_id_list r of
                                           None \<Rightarrow> [] | Some xs \<Rightarrow> xs)
                                in if rejected = [] then []
                                   else MSG_PAREN_OPEN @ natStr (length rejected)
                                          @ MSG_INVALID_OR_PRESENT)\<rparr>,
                      s1\<lparr>requests := requests s1
                            @ [PostChatMembers (ctx_chatId context) (mentionedUserIds command)]\<rparr>)"
      using h
      by (simp add: executeCommand_passed [OF adm passed] req ty dispatchCommand_def
          executeAddMemberCommand_def add invalidNote_def Let_def)
  }
qed


lemma demo_admin_check:
  "isUserGroupAdmin demo_platform example_account (ascii ''oc_chat'') (ascii ''ou_admin'') fresh_state
     = (\<lparr>isAdmin = True, isOwner = False, ac_error = None\<rparr>,
        \<lparr>clientCache = [ascii ''cli_test''],
         requests = [GetChat (ascii ''oc_chat''), GetChatManagers (ascii ''oc_chat'')]\<rparr>)"
  by (simp add: isUserGroupAdmin_def getGroupInfo_def getFeishuClient_def sdk_request_def
      demo_platform_def example_account_def fresh_state_def ok_with_def no_data_def no_item_def
      opt_data_def tmpl_def ascii_def)

theorem executeCommand_add_member_witness:
  "executeCommand demo_platform example_account
     (demo_command add_member [] [ascii ''ou_x'', ascii ''ou_bad''])
     (demo_context (ascii ''ou_admin'')) fresh_state
   = Some (Inr \<lparr>success = True,
                message = MSG_ADDED @ ascii ''2'' @ MSG_USERS @ MSG_PAREN_OPEN @ ascii ''1''
                            @ MSG_INVALID_OR_PRESENT\<rparr>,
           \<lparr>clientCache = [ascii ''cli_test''],
            requests = [GetChat (ascii ''oc_chat''), GetChatManagers (ascii ''oc_chat''),
                        PostChatMembers (ascii ''oc_chat'') [ascii ''ou_x'', ascii ''ou_bad'']]\<rparr>)
 \<and> executeCommand demo_platform example_account (demo_command add_member [] [])
     (demo_context (ascii ''ou_admin'')) fresh_state
   = Some (Inr \<lparr>success = False, message = MSG_ADD_USAGE\<rparr>,
           \<lparr>clientCache = [ascii ''cli_test''],
            requests = [GetChat (ascii ''oc_chat''), GetChatManagers (ascii ''oc_chat'')]\<rparr>)"
proof -
  let ?ctx = "demo_context (ascii ''ou_admin'')"
  let ?perm = "\<lparr>isAdmin = True, isOwner = False, ac_error = None\<rparr>"
  let ?s1 = "\<lparr>clientCache = [ascii ''cli_test''],
              requests = [GetChat (ascii ''oc_chat''), GetChatManagers (ascii ''oc_chat'')]\<rparr>"
  let ?r = "ok_with (no_data\<lparr>invalid_id_list := Some [ascii ''ou_bad'']\<rparr>)"
  have adm: "isUserGroupAdmin demo_platform example_account (ctx_chatId ?ctx) (ctx_senderId ?ctx)
      fresh_state = (?perm, ?s1)"
    using demo_admin_check by (simp add: demo_context_def)
  have ty2: "cmdType (demo_command add_member [] [ascii ''ou_x'', ascii ''ou_bad'']) = add_member"
    and ty0: "cmdType (demo_command add_member [] []) = add_member"
    by (simp_all add: demo_command_def)
  have h: "mentionedUserIds (demo_command add_member [] [ascii ''ou_x'', ascii ''ou_bad'']) \<noteq> []
      \<and> permission_granted ?perm
      \<and> demo_platform (requests ?s1)
           (PostChatMembers (ctx_chatId ?ctx)
              (mentionedUserIds (demo_command add_member [] [ascii ''ou_x'', ascii ''ou_bad''])))
          = Returns ?r
      \<and> code ?r = Some 0"
    by (simp add: demo_command_def permission_granted_def demo_platform_def ok_with_def)
  have e: "mentionedUserIds (demo_command add_member [] []) = []"
    by (simp add: demo_command_def)
  have n2: "natStr (length [ascii ''ou_x'', ascii ''ou_bad'']) = ascii ''2''"
    and n1: "natStr (Suc 0) = ascii ''1''"
    by (simp_all add: natStr.simps ascii_def)
  from executeCommand_add_member [OF ty2 adm, of ?r] h
  have first: "executeCommand demo_platform example_account
     (demo_command add_member [] [ascii ''ou_x'', ascii ''ou_bad'']) ?ctx fresh_state
   = Some (Inr \<lparr>success = True,
                message = MSG_ADDED @ ascii ''2'' @ MSG_USERS @ MSG_PAREN_OPEN @ ascii ''1''
                            @ MSG_INVALID_OR_PRESENT\<rparr>,
           \<lparr>clientCache = [ascii ''cli_test''],
            requests = [GetChat (ascii ''oc_chat''), GetChatManagers (ascii ''oc_chat''),
                        PostChatMembers (ascii ''oc_chat'') [ascii ''ou_x'', ascii ''ou_bad'']]\<rparr>)"
    using n2 n1
    by (simp add: demo_command_def demo_context_def opt_data_def ok_with_def no_data_def Let_def)
  from executeCommand_add_member [OF ty0 adm, of ?r] e
  have second: "executeCommand demo_platform example_account (demo_command add_member [] []) ?ctx
      fresh_state = Some (Inr \<lparr>success = False, message = MSG_ADD_USAGE\<rparr>, ?s1)"
    by simp
  from first second show ?thesis by simp
qed

text \<open>
  Claim C6, as stated, fails for a sender who is neither owner nor administrator: with an
  empty list of mentioned users the result is the no-permission message, not the usage hint.
\<close>

theorem executeCommand_add_member_counterexample:
  "executeCommand demo_platform example_account (demo_command add_member [] [])
     (demo_context (ascii ''ou_sender'')) fresh_state
   = Some (Inr \<lparr>success = False, message = MSG_NO_PERMISSION\<rparr>,
           \<lparr>clientCache = [ascii ''cli_test''],
            requests = [GetChat (ascii ''oc_chat''), GetChatManagers (ascii ''oc_chat'')]\<rparr>)
 \<and> MSG_NO_PERMISSION \<noteq> MSG_ADD_USAGE"
  by (simp add: executeCommand_def requiresAdminPermission_def ADMIN_REQUIRED_COMMANDS_def
      isUserGroupAdmin_def getGroupInfo_def getFeishuClient_def sdk_request_def
      demo_platform_def demo_command_def demo_context_def example_account_def fresh_state_def
      ok_with_def no_data_def no_item_def opt_data_def tmpl_def ascii_def
      MSG_NO_PERMISSION_def MSG_ADD_USAGE_def)

section \<open>Properties of the connection manager\<close>

lemma live_count_after_stop:
  "c < length cs \<Longrightarrow> is_live (cs ! c) \<Longrightarrow> \<not> is_live y \<Longrightarrow>
     Suc (length (filter is_live (cs[c := y]))) = length (filter is_live cs)"
proof (induction cs arbitrary: c)
  case Nil
  then show ?case by simp
next
  case (Cons x xs)
  show ?case
  proof (cases c)
    case 0
    with Cons.prems show ?thesis by simp
  next
    case (Suc d)
    with Cons.prems Cons.IH [of d] show ?thesis by simp
  qed
qed

lemma map_delete_get: "map_get (map_delete m k) k = None"
  by (induction m) (auto simp: map_get_def map_delete_def)

lemma map_delete_no_key: "filter (\<lambda>(k', i). k' = k) (map_delete m k) = []"
  by (induction m) (auto simp: map_delete_def)

lemma map_delete_has: "\<not> map_has (map_delete m k) k"
  by (induction m) (auto simp: map_has_def map_delete_def)

text \<open>
  A start over a live client that is registered under the key: the old client is stopped and
  its entry deleted before the new client is constructed; afterwards the key has exactly one
  entry, the new client, and the number of live clients is what it was before.
\<close>

lemma monitorFeishuProvider_restart_registered:
  assumes creds: "truthy (appId account)" "truthy (appSecret account)"
    and existing: "map_get (activeClients st) (clientKey account) = Some c"
    and live: "c < length (wsClients st)" "is_live (wsClients st ! c)"
  shows "\<exists>m st'. monitorFeishuProvider account st = Inr (m, st')
      \<and> mon_wsClient m = length (wsClients st)
      \<and> map_get (activeClients (stopExistingClient (clientKey account) st)) (clientKey account)
          = None
      \<and> ws_status (wsClients (stopExistingClient (clientKey account) st) ! c) = Stopped
      \<and> length (wsClients (stopExistingClient (clientKey account) st)) = length (wsClients st)
      \<and> ws_status (wsClients st' ! c) = Stopped
      \<and> ws_status (wsClients st' ! mon_wsClient m) = Started
      \<and> filter (\<lambda>(k, i). k = clientKey account) (activeClients st')
          = [(clientKey account, mon_wsClient m)]
      \<and> live_registered (clientKey account) st' = [mon_wsClient m]
      \<and> length (filter is_live (wsClients st')) = length (filter is_live (wsClients st))"
proof -
  let ?key = "clientKey account"
  let ?cs = "wsClients st"
  let ?stopped = "?cs[c := (?cs ! c)\<lparr>ws_status := Stopped\<rparr>]"
  let ?mid = "stopExistingClient ?key st"
  let ?new = "\<lparr>ws_clientKey = ?key, ws_appId = the (appId account),
               ws_appSecret = the (appSecret account), ws_status = Started\<rparr>"
  let ?m = "\<lparr>mon_account = account, mon_clientKey = ?key, mon_wsClient = length ?cs\<rparr>"
  have mid: "?mid = st\<lparr>wsClients := ?stopped, activeClients := map_delete (activeClients st) ?key\<rparr>"
    using existing live(1) by (simp add: stopExistingClient_def set_status_def)
  have mid_get: "map_get (activeClients ?mid) ?key = None"
    by (simp add: mid map_delete_get)
  have mid_status: "ws_status (wsClients ?mid ! c) = Stopped"
    using live(1) by (simp add: mid)
  have mid_len: "length (wsClients ?mid) = length ?cs"
    by (simp add: mid)
  define st' where "st' = snd (startNewClient account ?key ?mid)"
  have run: "monitorFeishuProvider account st = Inr (?m, st')"
    using creds by (simp add: monitorFeishuProvider_def startNewClient_def Let_def st'_def mid)
  have clients: "wsClients st' = ?stopped @ [?new]"
    by (simp add: st'_def startNewClient_def Let_def mid set_status_def list_update_append
        nth_append)
  have active: "activeClients st' = map_delete (activeClients st) ?key @ [(?key, length ?cs)]"
    by (simp add: st'_def startNewClient_def Let_def mid map_set_def map_delete_has)
  have old: "ws_status (wsClients st' ! c) = Stopped"
    using live(1) by (simp add: clients nth_append)
  have new: "ws_status (wsClients st' ! length ?cs) = Started"
    by (simp add: clients nth_append)
  have reg: "filter (\<lambda>(k, i). k = ?key) (activeClients st') = [(?key, length ?cs)]"
    by (simp add: active map_delete_no_key)
  have lr: "live_registered ?key st' = [length ?cs]"
    using new by (simp add: live_registered_def reg is_live_def clients)
  have "Suc (length (filter is_live ?stopped)) = length (filter is_live ?cs)"
    using live by (intro live_count_after_stop) (simp_all add: is_live_def)
  then have count: "length (filter is_live (wsClients st')) = length (filter is_live ?cs)"
    by (simp add: clients is_live_def)
  from run mid_get mid_status mid_len old new reg lr count show ?thesis
    by simp
qed

text \<open>
  Claim C8. The claim fails on the code when the live connection of the handle is no longer
  registered. Start the example account, start it again, and then let the monitor of the
  first start stop (its \<open>stop\<close> is called, or its abort signal fires): the closure deletes
  the entry of the key, which by then holds the second client, and the second client stays
  live without an entry. The third start finds no entry, stops nothing and starts a third
  client: the handle now has two live connections, of which one is registered, and
  \<open>stopFeishuMonitor\<close> for the account stops only the registered one.
\<close>

theorem monitorFeishuProvider_two_live_after_stale_stop:
  "monitorFeishuProvider example_account no_connections
     = Inr (example_monitor 0,
            \<lparr>wsClients = [example_client Started],
             activeClients = [(ascii ''default:cli_test'', 0)]\<rparr>)
 \<and> monitorFeishuProvider example_account
       \<lparr>wsClients = [example_client Started],
        activeClients = [(ascii ''default:cli_test'', 0)]\<rparr>
     = Inr (example_monitor 1,
            \<lparr>wsClients = [example_client Stopped, example_client Started],
             activeClients = [(ascii ''default:cli_test'', 1)]\<rparr>)
 \<and> monitor_stop (example_monitor 0)
       \<lparr>wsClients = [example_client Stopped, example_client Started],
        activeClients = [(ascii ''default:cli_test'', 1)]\<rparr>
     = \<lparr>wsClients = [example_client Stopped, example_client Started], activeClients = []\<rparr>
 \<and> live_connections (ascii ''default:cli_test'')
       \<lparr>wsClients = [example_client Stopped, example_client Started], activeClients = []\<rparr>
     = [1]
 \<and> monitorFeishuProvider example_account
       \<lparr>wsClients = [example_client Stopped, example_client Started], activeClients = []\<rparr>
     = Inr (example_monitor 2,
            \<lparr>wsClients = [example_client Stopped, example_client Started,
                          example_client Started],
             activeClients = [(ascii ''default:cli_test'', 2)]\<rparr>)
 \<and> live_connections (ascii ''default:cli_test'')
       \<lparr>wsClients = [example_client Stopped, example_client Started, example_client Started],
        activeClients = [(ascii ''default:cli_test'', 2)]\<rparr>
     = [1, 2]
 \<and> live_registered (ascii ''default:cli_test'')
       \<lparr>wsClients = [example_client Stopped, example_client Started, example_client Started],
        activeClients = [(ascii ''default:cli_test'', 2)]\<rparr>
     = [2]
 \<and> live_connections (ascii ''default:cli_test'')
       (stopFeishuMonitor (ascii ''default'')
          \<lparr>wsClients = [example_client Stopped, example_client Started,
                        example_client Started],
           activeClients = [(ascii ''default:cli_test'', 2)]\<rparr>)
     = [1]"
proof -
  have key: "clientKey example_account = ascii ''default:cli_test''"
    by (simp add: clientKey_def example_account_def tmpl_def ascii_def)
  have creds: "truthy (appId example_account)" "truthy (appSecret example_account)"
    by (simp_all add: example_account_def ascii_def)
  have cl: "the (appId example_account) = ascii ''cli_test''"
    "the (appSecret example_account) = ascii ''test_secret''"
    by (simp_all add: example_account_def)
  note defs = monitorFeishuProvider_def stopExistingClient_def startNewClient_def key creds cl
    map_get_def map_delete_def map_set_def map_has_def set_status_def example_client_def
    example_monitor_def no_connections_def Let_def
  show ?thesis
  proof (intro conjI)
    show "monitorFeishuProvider example_account no_connections
       = Inr (example_monitor 0,
              \<lparr>wsClients = [example_client Started],
               activeClients = [(ascii ''default:cli_test'', 0)]\<rparr>)"
      by (simp add: defs)
    show "monitorFeishuProvider example_account
         \<lparr>wsClients = [example_client Started],
          activeClients = [(ascii ''default:cli_test'', 0)]\<rparr>
       = Inr (example_monitor 1,
              \<lparr>wsClients = [example_client Stopped, example_client Started],
               activeClients = [(ascii ''default:cli_test'', 1)]\<rparr>)"
      by (simp add: defs)
    show "monitor_stop (example_monitor 0)
         \<lparr>wsClients = [example_client Stopped, example_client Started],
          activeClients = [(ascii ''default:cli_test'', 1)]\<rparr>
       = \<lparr>wsClients = [example_client Stopped, example_client Started], activeClients = []\<rparr>"
      by (simp add: monitor_stop_def defs)
    show "live_connections (ascii ''default:cli_test'')
         \<lparr>wsClients = [example_client Stopped, example_client Started], activeClients = []\<rparr>
       = [1]"
      by (simp add: live_connections_def is_live_def example_client_def upt_rec)
    show "monitorFeishuProvider example_account
         \<lparr>wsClients = [example_client Stopped, example_client Started], activeClients = []\<rparr>
       = Inr (example_monitor 2,
              \<lparr>wsClients = [example_client Stopped, example_client Started,
                            example_client Started],
               activeClients = [(ascii ''default:cli_test'', 2)]\<rparr>)"
      by (simp add: defs)
    show "live_connections (ascii ''default:cli_test'')
         \<lparr>wsClients = [example_client Stopped, example_client Started, example_client Started],
          activeClients = [(ascii ''default:cli_test'', 2)]\<rparr>
       = [1, 2]"
      by (simp add: live_connections_def is_live_def example_client_def upt_rec)
    show "live_registered (ascii ''default:cli_test'')
         \<lparr>wsClients = [example_client Stopped, example_client Started, example_client Started],
          activeClients = [(ascii ''default:cli_test'', 2)]\<rparr>
       = [2]"
      by (simp add: live_registered_def is_live_def example_client_def)
    show "live_connections (ascii ''default:cli_test'')
         (stopFeishuMonitor (ascii ''default'')
            \<lparr>wsClients = [example_client Stopped, example_client Started,
                          example_client Started],
             activeClients = [(ascii ''default:cli_test'', 2)]\<rparr>)
       = [1]"
      by (simp add: stopFeishuMonitor_def live_connections_def is_live_def example_client_def
          set_status_def upt_rec ascii_def Let_def)
  qed
qed


text \<open>
  The same run, composed from the empty registry: two starts, the stop of the first monitor,
  and a third start.
\<close>

theorem monitorFeishuProvider_two_live_after_stale_stop_witness:
  "(case monitorFeishuProvider example_account no_connections of
      Inl err \<Rightarrow> False
    | Inr (m1, s1) \<Rightarrow>
        (case monitorFeishuProvider example_account s1 of
           Inl err \<Rightarrow> False
         | Inr (m2, s2) \<Rightarrow>
             (case monitorFeishuProvider example_account (monitor_stop m1 s2) of
                Inl err \<Rightarrow> False
              | Inr (m3, s3) \<Rightarrow>
                  live_connections (ascii ''default:cli_test'') s3 = [1, 2]
                  \<and> live_registered (ascii ''default:cli_test'') s3 = [2])))"
  using monitorFeishuProvider_two_live_after_stale_stop
  by simp
section \<open>The executor never throws\<close>

lemma announcementCatch_credentials: "\<not> an_isDocxType (announcementCatch credentialsError)"
  by (simp add: announcementCatch_def extractFeishuError_def credentialsError_def ascii_def)

lemma getGroupAnnouncement_docx_cached:
  assumes "getGroupAnnouncement platform account chatId s = (cur, s1)" and "an_isDocxType cur"
  shows "tmpl (appId account) \<in> set (clientCache s1)"
proof (cases "getFeishuClient account s")
  case (Pair res s0)
  show ?thesis
  proof (cases res)
    case (Inl err)
    with Pair have "err = credentialsError"
      by (auto dest: getFeishuClient_Inl)
    with assms Pair Inl announcementCatch_credentials show ?thesis
      by (auto simp: getGroupAnnouncement_def)
  next
    case (Inr u)
    with Pair have "tmpl (appId account) \<in> set (clientCache s0)"
      by (auto dest: getFeishuClient_Inr)
    with assms Pair Inr show ?thesis
      by (auto simp: getGroupAnnouncement_def sdk_request_def split: outcome.splits if_splits)
  qed
qed

lemma updateDocxAnnouncement_returns:
  assumes "tmpl (appId account) \<in> set (clientCache s)"
  shows "\<exists>r s'. updateDocxAnnouncement platform account chatId content s = (Inr r, s')"
  using getFeishuClient_cached [OF assms]
  by (simp add: updateDocxAnnouncement_def Let_def split: prod.splits outcome.splits)

lemma updateGroupAnnouncement_returns:
  "\<exists>r s'. updateGroupAnnouncement platform account chatId content s = (Inr r, s')"
proof (cases "getGroupAnnouncement platform account chatId s")
  case (Pair cur s1)
  show ?thesis
  proof (cases "an_isDocxType cur")
    case True
    from updateDocxAnnouncement_returns [OF getGroupAnnouncement_docx_cached [OF Pair True]]
    show ?thesis
      using Pair True by (simp add: updateGroupAnnouncement_def)
  next
    case False
    with Pair show ?thesis
      by (simp add: updateGroupAnnouncement_def split: prod.splits sum.splits outcome.splits)
  qed
qed

lemma executeAnnouncementCommand_returns:
  "\<exists>r s'. executeAnnouncementCommand platform account chatId content s = (Inr r, s')"
  using updateGroupAnnouncement_returns [of platform account chatId content s]
  by (auto simp: executeAnnouncementCommand_def)

lemma dispatchCommand_returns:
  assumes "cmdType command \<noteq> list_members"
  shows "\<exists>r s'. dispatchCommand platform account command chatId s = Some (Inr r, s')"
  using assms executeAnnouncementCommand_returns [of platform account chatId "args command" s]
  by (cases "cmdType command") (auto simp: dispatchCommand_def split: prod.splits)

lemma dispatchCommand_no_throw:
  "dispatchCommand platform account command chatId s \<noteq> Some (Inl err, s')"
  using executeAnnouncementCommand_returns [of platform account chatId "args command" s]
  by (cases "cmdType command") (auto simp: dispatchCommand_def split: prod.splits option.splits)

lemma executeCommand_no_throw:
  "executeCommand platform account command context s \<noteq> Some (Inl err, s')"
  using dispatchCommand_no_throw [of platform account command "ctx_chatId context"]
  by (simp add: executeCommand_def split: prod.splits)

lemma executeCommand_returns:
  assumes "cmdType command \<noteq> list_members"
  shows "\<exists>r s'. executeCommand platform account command context s = Some (Inr r, s')"
  using dispatchCommand_returns [OF assms, of platform account "ctx_chatId context"]
  by (simp add: executeCommand_def split: prod.splits)

section \<open>The member list loop\<close>

lemma getGroupMembersLoop_returns:
  assumes "pages_end_within n platform chatId pageToken (requests s)"
  shows "\<exists>res s'. getGroupMembersLoop platform chatId pageToken members s = Some (res, s')"
  using assms
proof (induction n arbitrary: pageToken members s)
  case 0
  then show ?case by simp
next
  case (Suc n)
  let ?req = "GetChatMembers chatId (if truthy pageToken then pageToken else None)"
  show ?case
  proof (cases "more_pages (platform (requests s) ?req)")
    case False
    then show ?thesis
      by (subst getGroupMembersLoop.simps)
        (auto simp: sdk_request_def more_pages_def split: outcome.splits)
  next
    case True
    then obtain r where r: "platform (requests s) ?req = Returns r" "code r = Some 0"
        "truthy (nextPageToken r)"
      by (auto simp: more_pages_def split: outcome.splits)
    with Suc.prems
    have "pages_end_within n platform chatId (nextPageToken r)
            (requests (s\<lparr>requests := requests s @ [?req]\<rparr>))"
      by (simp add: Let_def)
    from Suc.IH [OF this, of "members @ pageMembers r"]
    show ?thesis
      by (subst getGroupMembersLoop.simps) (simp add: sdk_request_def r)
  qed
qed

lemma getGroupMembersLoop_endless_aux:
  assumes run: "getGroupMembersLoop platform chatId pageToken members s = Some y"
  shows "platform \<noteq> endless_platform"
proof (rule getGroupMembersLoop.raw_induct
    [where P = "\<lambda>p c t m st y. p \<noteq> endless_platform", OF _ run], goal_cases)
  case (1 loop p c t m st y')
  show ?case
  proof
    assume e: "p = endless_platform"
    from 1(2) have
      "loop endless_platform c (Some (ascii ''next''))
         (m @ pageMembers (ok_with (no_data\<lparr>has_more := True,
            page_token := Some (ascii ''next'')\<rparr>)))
         (st\<lparr>requests := requests st
              @ [GetChatMembers c (if truthy t then t else None)]\<rparr>)
        = Some y'"
      by (simp add: e sdk_request_def endless_platform_def ok_with_def no_data_def
          nextPageToken_def ascii_def)
    from 1(1) [OF this] show False by simp
  qed
qed

lemma getGroupMembersLoop_endless:
  "getGroupMembersLoop endless_platform chatId pageToken members s = None"
  using getGroupMembersLoop_endless_aux [of endless_platform chatId pageToken members s]
  by (cases "getGroupMembersLoop endless_platform chatId pageToken members s") auto

section \<open>A command that succeeds ends on a call that succeeded\<close>

lemma last_call_ok_snoc [simp]:
  "last_call_ok platform (h @ [req]) = (\<not> call_failed (platform h req))"
  by (simp add: last_call_ok_def)

lemma last_call_ok_snoc2 [simp]:
  "last_call_ok platform (h @ [req1, req2]) = (\<not> call_failed (platform (h @ [req1]) req2))"
  using last_call_ok_snoc [of platform "h @ [req1]" req2] by simp

lemma getGroupInfo_owner_ok:
  "getGroupInfo platform account chatId s = (info, s1) \<Longrightarrow> gi_ownerId info \<noteq> None \<Longrightarrow>
     requests s1 = requests s @ [GetChat chatId] \<and> last_call_ok platform (requests s1)"
  by (auto simp: getGroupInfo_def sdk_request_def call_failed_def dest!: getFeishuClient_Inr
      split: prod.splits sum.splits outcome.splits if_splits)

lemma isUserGroupAdmin_passed_ok:
  assumes "isUserGroupAdmin platform account chatId userId s = (perm, s1)"
    and "isAdmin perm \<or> isOwner perm"
  shows "length (requests s) < length (requests s1) \<and> last_call_ok platform (requests s1)"
proof (cases "getGroupInfo platform account chatId s")
  case (Pair info s0)
  show ?thesis
  proof (cases "gi_ownerId info = Some userId")
    case True
    with getGroupInfo_owner_ok [OF Pair] assms Pair show ?thesis
      by (auto simp: isUserGroupAdmin_def split: if_splits)
  next
    case False
    from getGroupInfo_requests [OF Pair]
    have "length (requests s) \<le> length (requests s0)"
      by auto
    with False assms Pair show ?thesis
      by (auto simp: isUserGroupAdmin_def sdk_request_def call_failed_def Let_def
          dest!: getFeishuClient_Inr split: if_splits prod.splits sum.splits outcome.splits)
  qed
qed

lemma addMembersToGroup_ok:
  "addMembersToGroup platform account chatId memberIds s = (res, s1) \<Longrightarrow> mo_success res \<Longrightarrow>
     length (requests s) < length (requests s1) \<and> last_call_ok platform (requests s1)"
  by (auto simp: addMembersToGroup_def sdk_request_def call_failed_def Let_def
      dest!: getFeishuClient_Inr split: prod.splits sum.splits outcome.splits if_splits)

lemma removeMembersFromGroup_ok:
  "removeMembersFromGroup platform account chatId memberIds s = (res, s1) \<Longrightarrow> mo_success res \<Longrightarrow>
     length (requests s) < length (requests s1) \<and> last_call_ok platform (requests s1)"
  by (auto simp: removeMembersFromGroup_def sdk_request_def call_failed_def
      dest!: getFeishuClient_Inr split: prod.splits sum.splits outcome.splits if_splits)

lemma updateDocxAnnouncement_ok:
  "updateDocxAnnouncement platform account chatId content s = (Inr res, s1) \<Longrightarrow>
     up_success res \<Longrightarrow>
     length (requests s) < length (requests s1) \<and> last_call_ok platform (requests s1)"
  by (auto simp: updateDocxAnnouncement_def sdk_request_def call_failed_def Let_def
      dest!: getFeishuClient_Inr split: prod.splits sum.splits outcome.splits if_splits)

lemma getGroupAnnouncement_requests:
  "getGroupAnnouncement platform account chatId s = (cur, s1) \<Longrightarrow>
     length (requests s) \<le> length (requests s1)"
  by (auto simp: getGroupAnnouncement_def sdk_request_def
      dest!: getFeishuClient_Inr getFeishuClient_Inl
      split: prod.splits sum.splits outcome.splits if_splits)

lemma updateGroupAnnouncement_ok:
  assumes "updateGroupAnnouncement platform account chatId content s = (Inr res, s1)"
    and "up_success res"
  shows "length (requests s) < length (requests s1) \<and> last_call_ok platform (requests s1)"
proof (cases "getGroupAnnouncement platform account chatId s")
  case (Pair cur s0)
  note len = getGroupAnnouncement_requests [OF Pair]
  show ?thesis
  proof (cases "an_isDocxType cur")
    case True
    with assms Pair have "updateDocxAnnouncement platform account chatId content s0 = (Inr res, s1)"
      by (auto simp: updateGroupAnnouncement_def split: if_splits)
    from updateDocxAnnouncement_ok [OF this assms(2)] len show ?thesis
      by simp
  next
    case False
    with assms Pair len show ?thesis
      by (auto simp: updateGroupAnnouncement_def sdk_request_def call_failed_def
          dest!: getFeishuClient_Inr split: prod.splits sum.splits outcome.splits if_splits)
  qed
qed

lemma executeAnnouncementCommand_ok:
  assumes "executeAnnouncementCommand platform account chatId content s = (Inr r, s1)"
    and "success r"
  shows "length (requests s) < length (requests s1) \<and> last_call_ok platform (requests s1)"
  using assms
  by (auto simp: executeAnnouncementCommand_def dest: updateGroupAnnouncement_ok
      split: if_splits prod.splits sum.splits)

lemma dispatchCommand_ok:
  assumes "cmdType command \<noteq> list_members"
    and "dispatchCommand platform account command chatId s = Some (Inr r, s1)"
    and "success r"
  shows "length (requests s) < length (requests s1) \<and> last_call_ok platform (requests s1)"
proof (cases "cmdType command")
  case announcement
  with assms show ?thesis
    by (auto simp: dispatchCommand_def dest: executeAnnouncementCommand_ok)
next
  case add_member
  with assms show ?thesis
    by (auto simp: dispatchCommand_def executeAddMemberCommand_def dest: addMembersToGroup_ok
        split: if_splits prod.splits)
next
  case remove_member
  with assms show ?thesis
    by (auto simp: dispatchCommand_def executeRemoveMemberCommand_def
        dest: removeMembersFromGroup_ok split: if_splits prod.splits)
next
  case list_members
  with assms show ?thesis by simp
qed

lemma executeCommand_success_last_ok:
  assumes "cmdType command \<noteq> list_members"
    and "executeCommand platform account command context s = Some (Inr r, s')"
    and "success r"
  shows "last_call_ok platform (requests s')"
proof -
  have req: "requiresAdminPermission (cmdType command)"
    using assms(1)
    by (cases "cmdType command") (simp_all add: requiresAdminPermission_def ADMIN_REQUIRED_COMMANDS_def)
  obtain perm s1 where adm:
    "isUserGroupAdmin platform account (ctx_chatId context) (ctx_senderId context) s = (perm, s1)"
    by (cases "isUserGroupAdmin platform account (ctx_chatId context) (ctx_senderId context) s")
  from assms(2,3) req adm
  have "dispatchCommand platform account command (ctx_chatId context) s1 = Some (Inr r, s')"
    by (auto simp: executeCommand_def split: if_splits)
  from dispatchCommand_ok [OF assms(1) this assms(3)] show ?thesis
    by simp
qed

section \<open>Failures and results of the executor\<close>

lemma getGroupMembersLoop_last:
  assumes run: "getGroupMembersLoop platform chatId pageToken members s = Some y"
  shows "\<exists>h req. requests (snd y) = h @ [req] \<and> length (requests s) \<le> length h
      \<and> (call_failed (platform h req) \<longrightarrow>
            mr_members (fst y) = [] \<and> mr_error (fst y) = failure_text (platform h req))"
proof (rule getGroupMembersLoop.raw_induct
    [where P = "\<lambda>p c t m st y. \<exists>h req. requests (snd y) = h @ [req]
      \<and> length (requests st) \<le> length h
      \<and> (call_failed (p h req) \<longrightarrow>
            mr_members (fst y) = [] \<and> mr_error (fst y) = failure_text (p h req))", OF _ run],
    goal_cases)
  case (1 loop p c t m st y')
  let ?req = "GetChatMembers c (if truthy t then t else None)"
  let ?st1 = "st\<lparr>requests := requests st @ [?req]\<rparr>"
  show ?case
  proof (cases "more_pages (p (requests st) ?req)")
    case True
    then obtain r where r: "p (requests st) ?req = Returns r" "code r = Some 0"
        "truthy (nextPageToken r)"
      by (auto simp: more_pages_def split: outcome.splits)
    with 1(2) have "loop p c (nextPageToken r) (m @ pageMembers r) ?st1 = Some y'"
      by (simp add: sdk_request_def)
    from 1(1) [OF this] show ?thesis
      by auto
  next
    case False
    with 1(2) have "requests (snd y') = requests st @ [?req]
        \<and> (call_failed (p (requests st) ?req) \<longrightarrow>
              mr_members (fst y') = [] \<and> mr_error (fst y') = failure_text (p (requests st) ?req))"
      by (auto simp: sdk_request_def more_pages_def call_failed_def failure_text_def
          split: outcome.splits if_splits)
    then show ?thesis
      by (intro exI [of _ "requests st"] exI [of _ ?req]) simp
  qed
qed

lemma executeListMembersCommand_failed:
  assumes run: "executeListMembersCommand platform account chatId s = Some (r, s')"
    and last: "requests s' = h @ [req]" "call_failed (platform h req)"
      "truthy (failure_text (platform h req))"
  shows "\<not> success r"
proof (cases "getFeishuClient account s")
  case (Pair res s0)
  show ?thesis
  proof (cases res)
    case (Inl err)
    with Pair have "err = credentialsError"
      by (auto dest: getFeishuClient_Inl)
    with run Pair Inl show ?thesis
      by (auto simp: executeListMembersCommand_def getGroupMembers_def errMessage_def
          credentialsError_def ascii_def)
  next
    case (Inr u)
    with run Pair obtain res1 where
      loop: "getGroupMembersLoop platform chatId None [] s0 = Some (res1, s')"
      by (auto simp: executeListMembersCommand_def getGroupMembers_def Let_def
          split: option.splits prod.splits if_splits)
    from getGroupMembersLoop_last [OF loop] last
    have "mr_error res1 = failure_text (platform h req)"
      by auto
    with run Pair Inr loop last(3) show ?thesis
      by (auto simp: executeListMembersCommand_def getGroupMembers_def)
  qed
qed

lemma executeListMembersCommand_returns:
  assumes "pages_end_within n platform chatId None (requests s)"
  shows "\<exists>r s'. executeListMembersCommand platform account chatId s = Some (r, s')"
proof (cases "getFeishuClient account s")
  case (Pair res s0)
  show ?thesis
  proof (cases res)
    case (Inl err)
    with Pair show ?thesis
      by (simp add: executeListMembersCommand_def getGroupMembers_def Let_def)
  next
    case (Inr u)
    with Pair have "requests s0 = requests s"
      by (auto dest: getFeishuClient_Inr)
    with assms have "pages_end_within n platform chatId None (requests s0)"
      by simp
    from getGroupMembersLoop_returns [OF this, of "[]"] Pair Inr show ?thesis
      by (auto simp: executeListMembersCommand_def getGroupMembers_def Let_def)
  qed
qed

lemma executeCommand_list_members:
  "cmdType command = list_members \<Longrightarrow>
     executeCommand platform account command context s
       = (case executeListMembersCommand platform account (ctx_chatId context) s of
            None \<Rightarrow> None
          | Some (r, s1) \<Rightarrow> Some (Inr r, s1))"
  by (simp add: executeCommand_def dispatchCommand_def requiresAdminPermission_def
      ADMIN_REQUIRED_COMMANDS_def)

section \<open>Every reported failure refuses the command\<close>

lemma no_reported_failure_append:
  "no_reported_failure platform h (xs @ ys)
     = (no_reported_failure platform h xs \<and> no_reported_failure platform (h @ xs) ys)"
  by (induction xs arbitrary: h) auto

lemma no_reported_failure_nth:
  "no_reported_failure platform h new \<Longrightarrow> i < length new \<Longrightarrow>
     \<not> reported_failure (new ! i) (platform (h @ take i new) (new ! i))"
proof (induction new arbitrary: h i)
  case Nil
  then show ?case by simp
next
  case (Cons req rest)
  show ?case
  proof (cases i)
    case 0
    with Cons.prems show ?thesis by simp
  next
    case (Suc j)
    with Cons.prems Cons.IH [of "h @ [req]" j] show ?thesis by simp
  qed
qed

lemma getGroupInfo_reports:
  "getGroupInfo platform account chatId s = (info, s1) \<Longrightarrow>
     \<exists>new. requests s1 = requests s @ new
       \<and> (\<not> truthy (gi_error info) \<longrightarrow> no_reported_failure platform (requests s) new)"
  by (auto simp: getGroupInfo_def sdk_request_def reported_failure_def call_failed_def
      failure_text_def dest!: getFeishuClient_Inr getFeishuClient_Inl
      split: prod.splits sum.splits outcome.splits if_splits)

lemma isUserGroupAdmin_reports:
  assumes "isUserGroupAdmin platform account chatId userId s = (perm, s1)"
  shows "\<exists>new. requests s1 = requests s @ new
       \<and> (permission_granted perm \<longrightarrow> no_reported_failure platform (requests s) new)"
proof (cases "getGroupInfo platform account chatId s")
  case (Pair info s0)
  from getGroupInfo_reports [OF Pair] obtain new0 where
    new0: "requests s0 = requests s @ new0"
      "\<not> truthy (gi_error info) \<longrightarrow> no_reported_failure platform (requests s) new0"
    by blast
  show ?thesis
  proof (cases "truthy (gi_error info) \<or> gi_ownerId info = Some userId")
    case True
    with assms Pair new0 show ?thesis
      by (auto simp: isUserGroupAdmin_def permission_granted_def split: if_splits)
  next
    case False
    with assms Pair have
      "requests s1 = requests s0 \<and> \<not> permission_granted perm
       \<or> requests s1 = requests s0 @ [GetChatManagers chatId]
          \<and> (permission_granted perm \<longrightarrow>
                \<not> call_failed (platform (requests s0) (GetChatManagers chatId)))"
      by (auto simp: isUserGroupAdmin_def sdk_request_def permission_granted_def call_failed_def
          Let_def dest!: getFeishuClient_Inr getFeishuClient_Inl
          split: if_splits prod.splits sum.splits outcome.splits)
    then show ?thesis
    proof
      assume "requests s1 = requests s0 \<and> \<not> permission_granted perm"
      with new0 show ?thesis by simp
    next
      assume a: "requests s1 = requests s0 @ [GetChatManagers chatId]
          \<and> (permission_granted perm \<longrightarrow>
                \<not> call_failed (platform (requests s0) (GetChatManagers chatId)))"
      with new0 False have "requests s1 = requests s @ (new0 @ [GetChatManagers chatId])
          \<and> (permission_granted perm \<longrightarrow>
                no_reported_failure platform (requests s) (new0 @ [GetChatManagers chatId]))"
        by (simp add: no_reported_failure_append reported_failure_def)
      then show ?thesis by blast
    qed
  qed
qed

lemma addMembersToGroup_reports:
  "addMembersToGroup platform account chatId memberIds s = (res, s1) \<Longrightarrow>
     \<exists>new. requests s1 = requests s @ new
       \<and> (mo_success res \<longrightarrow> no_reported_failure platform (requests s) new)"
  by (auto simp: addMembersToGroup_def sdk_request_def reported_failure_def call_failed_def
      Let_def dest!: getFeishuClient_Inr getFeishuClient_Inl
      split: prod.splits sum.splits outcome.splits if_splits)

lemma removeMembersFromGroup_reports:
  "removeMembersFromGroup platform account chatId memberIds s = (res, s1) \<Longrightarrow>
     \<exists>new. requests s1 = requests s @ new
       \<and> (mo_success res \<longrightarrow> no_reported_failure platform (requests s) new)"
  by (auto simp: removeMembersFromGroup_def sdk_request_def reported_failure_def call_failed_def
      dest!: getFeishuClient_Inr getFeishuClient_Inl
      split: prod.splits sum.splits outcome.splits if_splits)

lemma getGroupAnnouncement_reports:
  "getGroupAnnouncement platform account chatId s = (cur, s1) \<Longrightarrow>
     \<exists>new. requests s1 = requests s @ new
       \<and> (an_isDocxType cur \<or> \<not> truthy (an_error cur)
            \<longrightarrow> no_reported_failure platform (requests s) new)"
  by (auto simp: getGroupAnnouncement_def sdk_request_def reported_failure_def call_failed_def
      announcementCatch_def Let_def dest!: getFeishuClient_Inr getFeishuClient_Inl
      split: prod.splits sum.splits outcome.splits if_splits)

lemma updateDocxAnnouncement_reports:
  "updateDocxAnnouncement platform account chatId content s = (Inr res, s1) \<Longrightarrow>
     \<exists>new. requests s1 = requests s @ new
       \<and> (up_success res \<longrightarrow> no_reported_failure platform (requests s) new)"
  by (auto simp: updateDocxAnnouncement_def sdk_request_def reported_failure_def call_failed_def
      Let_def dest!: getFeishuClient_Inr getFeishuClient_Inl
      split: prod.splits sum.splits outcome.splits if_splits)


lemma updateGroupAnnouncement_reports:
  assumes run: "updateGroupAnnouncement platform account chatId content s = (Inr res, s1)"
  shows "\<exists>new. requests s1 = requests s @ new
       \<and> (up_success res \<longrightarrow> no_reported_failure platform (requests s) new)"
proof (cases "trim content = []")
  case True
  with run show ?thesis
    by (auto simp: updateGroupAnnouncement_def)
next
  case nonblank: False
  obtain cur s0 where cur: "getGroupAnnouncement platform account chatId s = (cur, s0)"
    by (cases "getGroupAnnouncement platform account chatId s")
  from getGroupAnnouncement_reports [OF cur] obtain new0 where
    new0: "requests s0 = requests s @ new0"
      "an_isDocxType cur \<or> \<not> truthy (an_error cur)
         \<longrightarrow> no_reported_failure platform (requests s) new0"
    by blast
  show ?thesis
  proof (cases "an_isDocxType cur")
    case True
    with run cur nonblank
    have "updateDocxAnnouncement platform account chatId content s0 = (Inr res, s1)"
      by (simp add: updateGroupAnnouncement_def)
    from updateDocxAnnouncement_reports [OF this] obtain new1 where
      "requests s1 = requests s0 @ new1"
      "up_success res \<longrightarrow> no_reported_failure platform (requests s0) new1"
      by blast
    with new0 True have "requests s1 = requests s @ (new0 @ new1)
        \<and> (up_success res \<longrightarrow> no_reported_failure platform (requests s) (new0 @ new1))"
      by (simp add: no_reported_failure_append)
    then show ?thesis by blast
  next
    case False
    with run cur nonblank have
      "requests s1 = requests s0 \<and> \<not> up_success res
       \<or> \<not> truthy (an_error cur)
          \<and> requests s1 = requests s0
               @ [PatchAnnouncement chatId
                    (case an_revision cur of Some v \<Rightarrow> v | None \<Rightarrow> ascii ''0'') content]
          \<and> (up_success res \<longrightarrow>
                \<not> call_failed (platform (requests s0)
                    (PatchAnnouncement chatId
                       (case an_revision cur of Some v \<Rightarrow> v | None \<Rightarrow> ascii ''0'') content)))"
      by (auto simp: updateGroupAnnouncement_def sdk_request_def call_failed_def
          dest!: getFeishuClient_Inr getFeishuClient_Inl
          split: if_splits prod.splits sum.splits outcome.splits)
    then show ?thesis
    proof
      assume "requests s1 = requests s0 \<and> \<not> up_success res"
      with new0 show ?thesis by simp
    next
      let ?patch = "PatchAnnouncement chatId
                    (case an_revision cur of Some v \<Rightarrow> v | None \<Rightarrow> ascii ''0'') content"
      assume a: "\<not> truthy (an_error cur) \<and> requests s1 = requests s0 @ [?patch]
          \<and> (up_success res \<longrightarrow> \<not> call_failed (platform (requests s0) ?patch))"
      with new0 have "requests s1 = requests s @ (new0 @ [?patch])
          \<and> (up_success res \<longrightarrow> no_reported_failure platform (requests s) (new0 @ [?patch]))"
        by (simp add: no_reported_failure_append reported_failure_def)
      then show ?thesis by blast
    qed
  qed
qed

lemma executeAnnouncementCommand_reports:
  assumes "executeAnnouncementCommand platform account chatId content s = (Inr r, s1)"
  shows "\<exists>new. requests s1 = requests s @ new
       \<and> (success r \<longrightarrow> no_reported_failure platform (requests s) new)"
  using assms
  by (auto simp: executeAnnouncementCommand_def dest!: updateGroupAnnouncement_reports
      split: if_splits prod.splits sum.splits)

lemma getGroupMembersLoop_reports:
  assumes run: "getGroupMembersLoop platform chatId pageToken members s = Some y"
  shows "\<exists>new. requests (snd y) = requests s @ new
       \<and> (\<not> truthy (mr_error (fst y)) \<longrightarrow> no_reported_failure platform (requests s) new)"
proof (rule getGroupMembersLoop.raw_induct
    [where P = "\<lambda>p c t m st y. \<exists>new. requests (snd y) = requests st @ new
       \<and> (\<not> truthy (mr_error (fst y)) \<longrightarrow> no_reported_failure p (requests st) new)", OF _ run],
    goal_cases)
  case (1 loop p c t m st y')
  let ?req = "GetChatMembers c (if truthy t then t else None)"
  let ?st1 = "st\<lparr>requests := requests st @ [?req]\<rparr>"
  show ?case
  proof (cases "more_pages (p (requests st) ?req)")
    case True
    then obtain r where r: "p (requests st) ?req = Returns r" "code r = Some 0"
        "truthy (nextPageToken r)"
      by (auto simp: more_pages_def split: outcome.splits)
    with 1(2) have "loop p c (nextPageToken r) (m @ pageMembers r) ?st1 = Some y'"
      by (simp add: sdk_request_def)
    from 1(1) [OF this] obtain new1 where
      "requests (snd y') = requests ?st1 @ new1"
      "\<not> truthy (mr_error (fst y')) \<longrightarrow> no_reported_failure p (requests ?st1) new1"
      by blast
    with r have "requests (snd y') = requests st @ (?req # new1)
        \<and> (\<not> truthy (mr_error (fst y')) \<longrightarrow> no_reported_failure p (requests st) (?req # new1))"
      by (simp add: reported_failure_def call_failed_def)
    then show ?thesis by blast
  next
    case False
    with 1(2) have "requests (snd y') = requests st @ [?req]
        \<and> (\<not> truthy (mr_error (fst y')) \<longrightarrow> no_reported_failure p (requests st) [?req])"
      by (auto simp: sdk_request_def more_pages_def reported_failure_def call_failed_def
          failure_text_def split: outcome.splits if_splits)
    then show ?thesis by blast
  qed
qed

lemma executeListMembersCommand_reports:
  assumes run: "executeListMembersCommand platform account chatId s = Some (r, s1)"
  shows "\<exists>new. requests s1 = requests s @ new
       \<and> (success r \<longrightarrow> no_reported_failure platform (requests s) new)"
proof (cases "getFeishuClient account s")
  case (Pair res s0)
  show ?thesis
  proof (cases res)
    case (Inl err)
    with Pair have "err = credentialsError" "s0 = s"
      by (auto dest: getFeishuClient_Inl)
    with run Pair Inl show ?thesis
      by (auto simp: executeListMembersCommand_def getGroupMembers_def errMessage_def
          credentialsError_def ascii_def)
  next
    case (Inr u)
    with Pair have s0: "requests s0 = requests s"
      by (auto dest: getFeishuClient_Inr)
    from run Pair Inr obtain res1 where
      loop: "getGroupMembersLoop platform chatId None [] s0 = Some (res1, s1)"
      and ok: "success r \<longrightarrow> \<not> truthy (mr_error res1)"
      by (auto simp: executeListMembersCommand_def getGroupMembers_def Let_def
          split: option.splits prod.splits if_splits)
    from getGroupMembersLoop_reports [OF loop] s0 ok show ?thesis
      by auto
  qed
qed

lemma dispatchCommand_reports:
  assumes "dispatchCommand platform account command chatId s = Some (Inr r, s1)"
  shows "\<exists>new. requests s1 = requests s @ new
       \<and> (success r \<longrightarrow> no_reported_failure platform (requests s) new)"
proof (cases "cmdType command")
  case announcement
  with assms show ?thesis
    by (auto simp: dispatchCommand_def dest!: executeAnnouncementCommand_reports)
next
  case add_member
  with assms show ?thesis
    by (auto simp: dispatchCommand_def executeAddMemberCommand_def
        dest!: addMembersToGroup_reports split: if_splits prod.splits)
next
  case remove_member
  with assms show ?thesis
    by (auto simp: dispatchCommand_def executeRemoveMemberCommand_def
        dest!: removeMembersFromGroup_reports split: if_splits prod.splits)
next
  case list_members
  with assms show ?thesis
    by (auto simp: dispatchCommand_def dest!: executeListMembersCommand_reports
        split: option.splits prod.splits)
qed

lemma executeCommand_reports:
  assumes run: "executeCommand platform account command context s = Some (Inr r, s')"
  shows "\<exists>new. requests s' = requests s @ new
       \<and> (success r \<longrightarrow> no_reported_failure platform (requests s) new)"
proof (cases "requiresAdminPermission (cmdType command)")
  case False
  with run show ?thesis
    by (auto simp: executeCommand_def dest!: dispatchCommand_reports)
next
  case True
  obtain perm s1 where adm:
    "isUserGroupAdmin platform account (ctx_chatId context) (ctx_senderId context) s = (perm, s1)"
    by (cases "isUserGroupAdmin platform account (ctx_chatId context) (ctx_senderId context) s")
  from isUserGroupAdmin_reports [OF adm] obtain new0 where
    new0: "requests s1 = requests s @ new0"
      "permission_granted perm \<longrightarrow> no_reported_failure platform (requests s) new0"
    by blast
  show ?thesis
  proof (cases "permission_granted perm")
    case False
    with run True adm new0 show ?thesis
      by (auto simp: executeCommand_def permission_granted_def split: if_splits)
  next
    case granted: True
    with run True adm
    have "dispatchCommand platform account command (ctx_chatId context) s1 = Some (Inr r, s')"
      by (auto simp: executeCommand_def permission_granted_def split: if_splits)
    from dispatchCommand_reports [OF this] obtain new1 where
      "requests s' = requests s1 @ new1"
      "success r \<longrightarrow> no_reported_failure platform (requests s1) new1"
      by blast
    with new0 granted have "requests s' = requests s @ (new0 @ new1)
        \<and> (success r \<longrightarrow> no_reported_failure platform (requests s) (new0 @ new1))"
      by (simp add: no_reported_failure_append)
    then show ?thesis by blast
  qed
qed

text \<open>
  Claim C5, amended. \<open>executeCommand\<close> never throws. For the types announcement, add_member
  and remove_member it always returns a \<open>CommandResult\<close>; for list_members it returns one
  whenever the member pages the platform serves come to an end within some number \<open>n\<close> of
  requests. The requests a command issues extend the log, and when any of them fails, by a
  thrown error or by a code other than 0, the result is \<open>success: false\<close>: this holds for
  every failed call of the permission query, of the membership requests and of the
  announcement update, with one exception, an announcement read whose thrown error names a
  docx announcement, after which the command goes on to the docx update. (For the chat read,
  the announcement read and the member pages it is stated for failures with a non-empty
  error text.) In particular a command whose last call fails is not a success.
\<close>

theorem executeCommand_never_throws:
  "executeCommand platform account command context s \<noteq> Some (Inl err, s1)
 \<and> (cmdType command \<noteq> list_members \<or> pages_end_within n platform (ctx_chatId context) None (requests s)
      \<longrightarrow> (\<exists>r s'. executeCommand platform account command context s = Some (Inr r, s')))
 \<and> (executeCommand platform account command context s = Some (Inr r, s')
      \<and> requests s' = h @ [req] \<and> call_failed (platform h req)
      \<and> (cmdType command = list_members \<longrightarrow> truthy (failure_text (platform h req)))
      \<longrightarrow> \<not> success r)
 \<and> (executeCommand platform account command context s = Some (Inr r, s')
      \<longrightarrow> take (length (requests s)) (requests s') = requests s)
 \<and> (executeCommand platform account command context s = Some (Inr r, s')
      \<and> requests s' = requests s @ new \<and> i < length new
      \<and> reported_failure (new ! i) (platform (requests s @ take i new) (new ! i))
      \<longrightarrow> \<not> success r)"
proof (intro conjI impI)
  show "executeCommand platform account command context s \<noteq> Some (Inl err, s1)"
    by (rule executeCommand_no_throw)
next
  assume a: "cmdType command \<noteq> list_members
      \<or> pages_end_within n platform (ctx_chatId context) None (requests s)"
  show "\<exists>r s'. executeCommand platform account command context s = Some (Inr r, s')"
  proof (cases "cmdType command = list_members")
    case False
    then show ?thesis by (rule executeCommand_returns)
  next
    case True
    with a have "pages_end_within n platform (ctx_chatId context) None (requests s)"
      by simp
    from executeListMembersCommand_returns [OF this, of account] True show ?thesis
      by (auto simp: executeCommand_list_members)
  qed
next
  assume a: "executeCommand platform account command context s = Some (Inr r, s')
      \<and> requests s' = h @ [req] \<and> call_failed (platform h req)
      \<and> (cmdType command = list_members \<longrightarrow> truthy (failure_text (platform h req)))"
  show "\<not> success r"
  proof (cases "cmdType command = list_members")
    case False
    show ?thesis
    proof
      assume "success r"
      with a False have "last_call_ok platform (requests s')"
        by (intro executeCommand_success_last_ok [of command platform account "context" s r s']) simp_all
      with a show False by simp
    qed
  next
    case True
    with a have "executeListMembersCommand platform account (ctx_chatId context) s = Some (r, s')"
      by (auto simp: executeCommand_list_members split: option.splits)
    from executeListMembersCommand_failed [OF this, of h req] a True show ?thesis
      by simp
  qed
next
  assume "executeCommand platform account command context s = Some (Inr r, s')"
  from executeCommand_reports [OF this] show "take (length (requests s)) (requests s') = requests s"
    by auto
next
  assume a: "executeCommand platform account command context s = Some (Inr r, s')
      \<and> requests s' = requests s @ new \<and> i < length new
      \<and> reported_failure (new ! i) (platform (requests s @ take i new) (new ! i))"
  show "\<not> success r"
  proof
    assume "success r"
    with a executeCommand_reports [of platform account command "context" s r s']
    have "no_reported_failure platform (requests s) new"
      by auto
    from no_reported_failure_nth [OF this, of i] a show False
      by simp
  qed
qed

lemma demo_remove_run:
  "executeCommand demo_platform example_account (demo_command remove_member [] [ascii ''ou_x''])
     (demo_context (ascii ''ou_owner'')) fresh_state
   = Some (Inr \<lparr>success = False, message = MSG_REMOVE_FAILED @ ascii ''timeout''\<rparr>,
           \<lparr>clientCache = [ascii ''cli_test''],
            requests = [GetChat (ascii ''oc_chat''),
                        DeleteChatMembers (ascii ''oc_chat'') [ascii ''ou_x'']]\<rparr>)"
  by (simp add: executeCommand_def requiresAdminPermission_def ADMIN_REQUIRED_COMMANDS_def
      isUserGroupAdmin_def getGroupInfo_def getFeishuClient_def sdk_request_def
      dispatchCommand_def executeRemoveMemberCommand_def removeMembersFromGroup_def
      demo_platform_def demo_command_def demo_context_def example_account_def fresh_state_def
      ok_with_def no_data_def network_error_def errMessage_def opt_data_def tmpl_def ascii_def)

lemma rejected_read_run:
  "executeCommand chat_read_rejected_platform example_account
     (demo_command add_member [] [ascii ''ou_x'']) (demo_context (ascii ''ou_admin'')) fresh_state
   = Some (Inr \<lparr>success = False,
                message = MSG_PERMISSION_CHECK_FAILED @ ascii ''chat not found''\<rparr>,
           \<lparr>clientCache = [ascii ''cli_test''], requests = [GetChat (ascii ''oc_chat'')]\<rparr>)"
  by (simp add: executeCommand_def requiresAdminPermission_def ADMIN_REQUIRED_COMMANDS_def
      isUserGroupAdmin_def getGroupInfo_def getFeishuClient_def sdk_request_def apiError_def
      chat_read_rejected_platform_def demo_command_def demo_context_def example_account_def
      fresh_state_def tmpl_def ascii_def)

theorem executeCommand_never_throws_witness:
  "(\<exists>r s'. executeCommand demo_platform example_account (demo_command list_members [] [])
              (demo_context (ascii ''ou_sender'')) fresh_state = Some (Inr r, s'))
 \<and> (\<exists>r s'. executeCommand demo_platform example_account
              (demo_command remove_member [] [ascii ''ou_x''])
              (demo_context (ascii ''ou_owner'')) fresh_state = Some (Inr r, s')
            \<and> \<not> success r)
 \<and> (\<exists>r s'. executeCommand chat_read_rejected_platform example_account
              (demo_command add_member [] [ascii ''ou_x''])
              (demo_context (ascii ''ou_admin'')) fresh_state = Some (Inr r, s')
            \<and> \<not> success r)"
proof -
  let ?list = "demo_command list_members [] []"
  let ?remove = "demo_command remove_member [] [ascii ''ou_x'']"
  let ?add = "demo_command add_member [] [ascii ''ou_x'']"
  let ?h = "[GetChat (ascii ''oc_chat'')]"
  let ?req = "DeleteChatMembers (ascii ''oc_chat'') [ascii ''ou_x'']"
  let ?r = "\<lparr>success = False, message = MSG_REMOVE_FAILED @ ascii ''timeout''\<rparr>"
  let ?s' = "\<lparr>clientCache = [ascii ''cli_test''], requests = ?h @ [?req]\<rparr>"
  let ?r2 = "\<lparr>success = False, message = MSG_PERMISSION_CHECK_FAILED @ ascii ''chat not found''\<rparr>"
  let ?s2 = "\<lparr>clientCache = [ascii ''cli_test''], requests = [GetChat (ascii ''oc_chat'')]\<rparr>"
  have pages: "cmdType ?list \<noteq> list_members
      \<or> pages_end_within 2 demo_platform (ctx_chatId (demo_context (ascii ''ou_sender''))) None
           (requests fresh_state)"
    by (simp add: eval_nat_numeral demo_platform_def demo_context_def fresh_state_def ok_with_def
        no_data_def nextPageToken_def ascii_def Let_def)
  from executeCommand_never_throws [of demo_platform example_account ?list
      "demo_context (ascii ''ou_sender'')" fresh_state] pages
  have first: "\<exists>r s'. executeCommand demo_platform example_account ?list
      (demo_context (ascii ''ou_sender'')) fresh_state = Some (Inr r, s')"
    by blast
  have failed: "executeCommand demo_platform example_account ?remove
        (demo_context (ascii ''ou_owner'')) fresh_state = Some (Inr ?r, ?s')
      \<and> requests ?s' = ?h @ [?req] \<and> call_failed (demo_platform ?h ?req)
      \<and> (cmdType ?remove = list_members \<longrightarrow> truthy (failure_text (demo_platform ?h ?req)))"
    using demo_remove_run
    by (simp add: demo_platform_def call_failed_def demo_command_def)
  from executeCommand_never_throws [of demo_platform example_account ?remove
      "demo_context (ascii ''ou_owner'')" fresh_state _ _ _ ?r ?s' ?h ?req] failed
  have "\<not> success ?r"
    by blast
  with failed have second: "\<exists>r s'. executeCommand demo_platform example_account ?remove
      (demo_context (ascii ''ou_owner'')) fresh_state = Some (Inr r, s') \<and> \<not> success r"
    by blast
  have refused: "executeCommand chat_read_rejected_platform example_account ?add
        (demo_context (ascii ''ou_admin'')) fresh_state = Some (Inr ?r2, ?s2)
      \<and> requests ?s2 = requests fresh_state @ [GetChat (ascii ''oc_chat'')]
      \<and> 0 < length [GetChat (ascii ''oc_chat'')]
      \<and> reported_failure ([GetChat (ascii ''oc_chat'')] ! 0)
           (chat_read_rejected_platform
              (requests fresh_state @ take 0 [GetChat (ascii ''oc_chat'')])
              ([GetChat (ascii ''oc_chat'')] ! 0))"
    using rejected_read_run
    by (simp add: chat_read_rejected_platform_def reported_failure_def call_failed_def
        failure_text_def apiError_def fresh_state_def ascii_def)
  from executeCommand_never_throws [of chat_read_rejected_platform example_account ?add
      "demo_context (ascii ''ou_admin'')" fresh_state _ _ _ ?r2 ?s2 _ _
      "[GetChat (ascii ''oc_chat'')]" 0] refused
  have "\<not> success ?r2"
    by blast
  with refused have third: "\<exists>r s'. executeCommand chat_read_rejected_platform example_account ?add
      (demo_context (ascii ''ou_admin'')) fresh_state = Some (Inr r, s') \<and> \<not> success r"
    by blast
  from first second third show ?thesis by simp
qed

text \<open>
  Claim C5, as stated, fails in two ways. On a platform whose member pages never end, a
  list_members command never returns. And a failed call does not always end in
  \<open>success: false\<close>: when reading the announcement throws the error of an upgraded (docx)
  announcement, the command goes on to the docx update and reports success.
\<close>

theorem executeCommand_never_throws_counterexample:
  "executeCommand endless_platform example_account (demo_command list_members [] [])
     (demo_context (ascii ''ou_sender'')) fresh_state = None
 \<and> demo_platform [GetChat (ascii ''oc_chat'')] (GetAnnouncement (ascii ''oc_chat''))
     = Throws docx_error
 \<and> executeCommand demo_platform example_account (demo_command announcement (ascii ''hello'') [])
     (demo_context (ascii ''ou_owner'')) fresh_state
   = Some (Inr \<lparr>success = True, message = MSG_ANNOUNCEMENT_UPDATED\<rparr>,
           \<lparr>clientCache = [ascii ''cli_test''],
            requests = [GetChat (ascii ''oc_chat''), GetAnnouncement (ascii ''oc_chat''),
                        GetAnnouncementBlocks (ascii ''oc_chat''),
                        PostAnnouncementChildren (ascii ''oc_chat'') (ascii ''blk1'')
                          (ascii ''hello'')]\<rparr>)"
proof (intro conjI)
  show "executeCommand endless_platform example_account (demo_command list_members [] [])
     (demo_context (ascii ''ou_sender'')) fresh_state = None"
    by (simp add: executeCommand_list_members demo_command_def executeListMembersCommand_def
        getGroupMembers_def getGroupMembersLoop_endless getFeishuClient_def example_account_def
        fresh_state_def tmpl_def ascii_def)
  show "demo_platform [GetChat (ascii ''oc_chat'')] (GetAnnouncement (ascii ''oc_chat''))
     = Throws docx_error"
    by (simp add: demo_platform_def)
  have docx: "announcementCatch docx_error
      = \<lparr>an_revision = None, an_content = None, an_isDocxType = True,
         an_error = Some (ascii ''This chat announcement is docx type (code: 232097)'')\<rparr>"
    by (simp add: announcementCatch_def extractFeishuError_def docx_error_def tmplNum_def
        numStr_def natStr.simps ascii_def)
  show "executeCommand demo_platform example_account (demo_command announcement (ascii ''hello'') [])
     (demo_context (ascii ''ou_owner'')) fresh_state
   = Some (Inr \<lparr>success = True, message = MSG_ANNOUNCEMENT_UPDATED\<rparr>,
           \<lparr>clientCache = [ascii ''cli_test''],
            requests = [GetChat (ascii ''oc_chat''), GetAnnouncement (ascii ''oc_chat''),
                        GetAnnouncementBlocks (ascii ''oc_chat''),
                        PostAnnouncementChildren (ascii ''oc_chat'') (ascii ''blk1'')
                          (ascii ''hello'')]\<rparr>)"
    by (simp add: executeCommand_def requiresAdminPermission_def ADMIN_REQUIRED_COMMANDS_def
        isUserGroupAdmin_def getGroupInfo_def getFeishuClient_def sdk_request_def
        dispatchCommand_def executeAnnouncementCommand_def updateGroupAnnouncement_def
        getGroupAnnouncement_def updateDocxAnnouncement_def docx
        demo_platform_def demo_command_def demo_context_def example_account_def fresh_state_def
        ok_with_def ok_response_def no_data_def no_item_def opt_data_def tmpl_def trim_def
        isWhiteSpace_def ascii_def Let_def)
qed

text \<open>
  The tests \<open>if (result.error)\<close> treat an empty error text as no error. When the member list
  request throws an error whose message is empty, \<open>getGroupMembers\<close> returns no members and
  an empty error text, and the command answers \<open>success: true\<close> with the no-members message.
\<close>

lemma executeCommand_list_members_empty_error:
  "executeCommand silent_failure_platform example_account (demo_command list_members [] [])
     (demo_context (ascii ''ou_sender'')) fresh_state
   = Some (Inr \<lparr>success = True, message = MSG_NO_MEMBERS\<rparr>,
           \<lparr>clientCache = [ascii ''cli_test''],
            requests = [GetChatMembers (ascii ''oc_chat'') None]\<rparr>)"
  by (subst executeCommand_list_members)
    (simp_all add: demo_command_def executeListMembersCommand_def getGroupMembers_def
      getGroupMembersLoop.simps getFeishuClient_def sdk_request_def silent_failure_platform_def
      network_error_def errMessage_def demo_context_def example_account_def fresh_state_def
      tmpl_def ascii_def)

end
